theory Spec2Isabelle
  imports Main
begin

section \<open>Library functions the program calls\<close>

text \<open>
  The program is one Go file, \<^verbatim>\<open>main.go\<close>. Its decision logic sits in
  \<^verbatim>\<open>getVideoID\<close>, \<^verbatim>\<open>messageHandler\<close>, \<^verbatim>\<open>sendError\<close> and \<^verbatim>\<open>sendRecommend\<close>; everything
  else it does goes through library calls. The library functions are modelled here
  after their Go sources (packages \<^verbatim>\<open>strings\<close>, \<^verbatim>\<open>net/url\<close>, \<^verbatim>\<open>strconv\<close>, \<^verbatim>\<open>time\<close> as of
  Go 1.22, and \<^verbatim>\<open>github.com/senseyeio/duration\<close>), each under its Go name with the
  package as prefix. A Go \<^verbatim>\<open>string\<close> is a sequence of bytes, here a \<^typ>\<open>string\<close>.
\<close>

subsection \<open>Package strings\<close>

definition byte :: "char \<Rightarrow> nat" where
  "byte c = of_char c"

definition strings_HasPrefix :: "string \<Rightarrow> string \<Rightarrow> bool" where
  "strings_HasPrefix s p = (length p \<le> length s \<and> take (length p) s = p)"

definition strings_HasSuffix :: "string \<Rightarrow> string \<Rightarrow> bool" where
  "strings_HasSuffix s p = (length p \<le> length s \<and> drop (length s - length p) s = p)"

definition strings_TrimPrefix :: "string \<Rightarrow> string \<Rightarrow> string" where
  "strings_TrimPrefix s p = (if strings_HasPrefix s p then drop (length p) s else s)"

text \<open>\<^verbatim>\<open>strings.Index\<close> and \<^verbatim>\<open>strings.LastIndex\<close> return \<^verbatim>\<open>-1\<close> when the substring does
  not occur; that is \<^const>\<open>None\<close> here.\<close>

fun strings_Index :: "string \<Rightarrow> string \<Rightarrow> nat option" where
  "strings_Index [] sub = (if sub = [] then Some 0 else None)"
| "strings_Index (c # cs) sub =
     (if strings_HasPrefix (c # cs) sub then Some 0
      else map_option Suc (strings_Index cs sub))"

fun strings_LastIndex :: "string \<Rightarrow> string \<Rightarrow> nat option" where
  "strings_LastIndex [] sub = (if sub = [] then Some 0 else None)"
| "strings_LastIndex (c # cs) sub =
     (case strings_LastIndex cs sub of
        Some i \<Rightarrow> Some (Suc i)
      | None \<Rightarrow> if strings_HasPrefix (c # cs) sub then Some 0 else None)"

definition strings_Contains :: "string \<Rightarrow> string \<Rightarrow> bool" where
  "strings_Contains s sub = (strings_Index s sub \<noteq> None)"

definition strings_Cut :: "string \<Rightarrow> string \<Rightarrow> string \<times> string \<times> bool" where
  "strings_Cut s sep =
     (case strings_Index s sep of
        Some i \<Rightarrow> (take i s, drop (i + length sep) s, True)
      | None \<Rightarrow> (s, [], False))"

text \<open>\<^verbatim>\<open>strings.Count\<close> and \<^verbatim>\<open>strings.Split\<close> for a non-empty separator (the program and
  \<^verbatim>\<open>net/url\<close> pass one byte). Matches do not overlap: after a match the next
  \<open>length sep - 1\<close> bytes are skipped.\<close>

fun count_from :: "nat \<Rightarrow> string \<Rightarrow> string \<Rightarrow> nat" where
  "count_from skip [] sub = 0"
| "count_from skip (c # cs) sub =
     (if 0 < skip then count_from (skip - 1) cs sub
      else if strings_HasPrefix (c # cs) sub then Suc (count_from (length sub - 1) cs sub)
      else count_from 0 cs sub)"

definition strings_Count :: "string \<Rightarrow> string \<Rightarrow> nat" where
  "strings_Count s sub = count_from 0 s sub"

fun split_from :: "nat \<Rightarrow> string \<Rightarrow> string \<Rightarrow> string \<Rightarrow> string list" where
  "split_from skip cur [] sep = [rev cur]"
| "split_from skip cur (c # cs) sep =
     (if 0 < skip then split_from (skip - 1) cur cs sep
      else if strings_HasPrefix (c # cs) sep then rev cur # split_from (length sep - 1) [] cs sep
      else split_from 0 (c # cur) cs sep)"

definition strings_Split :: "string \<Rightarrow> string \<Rightarrow> string list" where
  "strings_Split s sep = split_from 0 [] s sep"

text \<open>\<^verbatim>\<open>strings.ToLower\<close> on ASCII letters; \<^verbatim>\<open>net/url\<close> applies it to a scheme, which holds
  ASCII letters, digits and \<^verbatim>\<open>+-.\<close> only. Other bytes are kept.\<close>

definition lower_byte :: "char \<Rightarrow> char" where
  "lower_byte c = (if 65 \<le> byte c \<and> byte c \<le> 90 then char_of (byte c + 32) else c)"

definition strings_ToLower :: "string \<Rightarrow> string" where
  "strings_ToLower s = map lower_byte s"

subsection \<open>Package net/url\<close>

text \<open>
  \<^verbatim>\<open>url.Parse\<close> returns a \<^verbatim>\<open>*url.URL\<close> or a \<^verbatim>\<open>*url.Error\<close> holding the operation, the text
  and the reason. The reasons are the errors the parser creates; their message texts are
  given by \<open>url_reason_Error\<close> further down. Of the \<^verbatim>\<open>URL\<close> struct the fields
  \<^verbatim>\<open>RawPath\<close>, \<^verbatim>\<open>RawFragment\<close> and \<^verbatim>\<open>OmitHost\<close> are left out: they are hints for printing a URL
  again, computed after every check has passed, and the program reads the query only.
\<close>

datatype url_reason =
    invalid_control_character
  | missing_protocol_scheme
  | first_path_segment_colon
  | EscapeError string
  | InvalidHostError string
  | missing_bracket_in_host
  | invalid_port string
  | invalid_userinfo

record url_Error =
  Op :: string
  URL_text :: string
  Err :: url_reason

record url_Userinfo =
  username :: string
  password :: string
  passwordSet :: bool

record url_URL =
  Scheme :: string
  Opaque :: string
  User :: "url_Userinfo option"
  Host :: string
  Path :: string
  ForceQuery :: bool
  RawQuery :: string
  Fragment :: string

definition url_URL_zero :: url_URL where
  "url_URL_zero = \<lparr>Scheme = [], Opaque = [], User = None, Host = [], Path = [],
     ForceQuery = False, RawQuery = [], Fragment = []\<rparr>"

datatype encoding =
    encodePath | encodePathSegment | encodeHost | encodeZone
  | encodeUserPassword | encodeQueryComponent | encodeFragment

definition is_alpha :: "char \<Rightarrow> bool" where
  "is_alpha c = ((97 \<le> byte c \<and> byte c \<le> 122) \<or> (65 \<le> byte c \<and> byte c \<le> 90))"

definition is_digit :: "char \<Rightarrow> bool" where
  "is_digit c = (48 \<le> byte c \<and> byte c \<le> 57)"

definition ishex :: "char \<Rightarrow> bool" where
  "ishex c = (is_digit c \<or> (97 \<le> byte c \<and> byte c \<le> 102) \<or> (65 \<le> byte c \<and> byte c \<le> 70))"

definition unhex :: "char \<Rightarrow> nat" where
  "unhex c =
     (if is_digit c then byte c - 48
      else if 97 \<le> byte c \<and> byte c \<le> 102 then byte c - 97 + 10
      else if 65 \<le> byte c \<and> byte c \<le> 70 then byte c - 65 + 10
      else 0)"

definition shouldEscape :: "char \<Rightarrow> encoding \<Rightarrow> bool" where
  "shouldEscape c mode =
     (if is_alpha c \<or> is_digit c then False
      else if (mode = encodeHost \<or> mode = encodeZone) \<and> c \<in> set ''!$&'' then False
      else if (mode = encodeHost \<or> mode = encodeZone)
              \<and> (c \<in> set ''()*+,;=:[]<>'' \<or> byte c = 39 \<or> byte c = 34) then False
      else if c \<in> set ''-_.~'' then False
      else if c \<in> set ''$&+,/:;=?@'' \<and> mode = encodePath then c = CHR ''?''
      else if c \<in> set ''$&+,/:;=?@'' \<and> mode = encodePathSegment then c \<in> set ''/;,?''
      else if c \<in> set ''$&+,/:;=?@'' \<and> mode = encodeUserPassword then c \<in> set ''@/?:''
      else if c \<in> set ''$&+,/:;=?@'' \<and> mode = encodeQueryComponent then True
      else if c \<in> set ''$&+,/:;=?@'' \<and> mode = encodeFragment then False
      else if mode = encodeFragment \<and> c \<in> set ''!()*'' then False
      else True)"

text \<open>
  \<^verbatim>\<open>unescape\<close> checks the whole text before it builds the result, and reports the leftmost
  ill-formed place. One pass from the left gives the same: a place is checked before the
  text after it is looked at. An escape is \<^verbatim>\<open>%\<close> and two hexadecimal digits; in a query
  component \<^verbatim>\<open>+\<close> stands for a space.
\<close>

fun unescape :: "string \<Rightarrow> encoding \<Rightarrow> url_reason + string" where
  "unescape [] mode = Inr []"
| "unescape (c # cs) mode =
     (if c = CHR ''%'' then
        (case cs of
           h1 # h2 # rest \<Rightarrow>
             if \<not> ishex h1 \<or> \<not> ishex h2 then Inl (EscapeError (take 3 (c # cs)))
             else if mode = encodeHost \<and> unhex h1 < 8 \<and> [c, h1, h2] \<noteq> ''%25''
               then Inl (EscapeError [c, h1, h2])
             else if mode = encodeZone \<and> [c, h1, h2] \<noteq> ''%25''
                     \<and> unhex h1 * 16 + unhex h2 \<noteq> 32
                     \<and> shouldEscape (char_of (unhex h1 * 16 + unhex h2)) encodeHost
               then Inl (EscapeError [c, h1, h2])
             else (case unescape rest mode of
                     Inl e \<Rightarrow> Inl e
                   | Inr t \<Rightarrow> Inr (char_of (unhex h1 * 16 + unhex h2) # t))
         | _ \<Rightarrow> Inl (EscapeError (take 3 (c # cs))))
      else if c = CHR ''+'' then
        (case unescape cs mode of
           Inl e \<Rightarrow> Inl e
         | Inr t \<Rightarrow> Inr ((if mode = encodeQueryComponent then CHR '' '' else CHR ''+'') # t))
      else if (mode = encodeHost \<or> mode = encodeZone) \<and> byte c < 128 \<and> shouldEscape c mode
        then Inl (InvalidHostError [c])
      else (case unescape cs mode of
              Inl e \<Rightarrow> Inl e
            | Inr t \<Rightarrow> Inr (c # t)))"

definition url_QueryUnescape :: "string \<Rightarrow> url_reason + string" where
  "url_QueryUnescape s = unescape s encodeQueryComponent"

definition stringContainsCTLByte :: "string \<Rightarrow> bool" where
  "stringContainsCTLByte s = list_ex (\<lambda>c. byte c < 32 \<or> byte c = 127) s"

text \<open>\<^verbatim>\<open>getScheme\<close> scans from index \<open>i\<close>; \<open>rest\<close> is \<open>rawURL\<close> from \<open>i\<close> on.\<close>

fun getScheme_from :: "string \<Rightarrow> nat \<Rightarrow> string \<Rightarrow> url_reason + string \<times> string" where
  "getScheme_from rawURL i [] = Inr ([], rawURL)"
| "getScheme_from rawURL i (c # cs) =
     (if is_alpha c then getScheme_from rawURL (Suc i) cs
      else if is_digit c \<or> c \<in> set ''+-.'' then
        (if i = 0 then Inr ([], rawURL) else getScheme_from rawURL (Suc i) cs)
      else if c = CHR '':'' then
        (if i = 0 then Inl missing_protocol_scheme
         else Inr (take i rawURL, drop (Suc i) rawURL))
      else Inr ([], rawURL))"

definition getScheme :: "string \<Rightarrow> url_reason + string \<times> string" where
  "getScheme rawURL = getScheme_from rawURL 0 rawURL"

definition validOptionalPort :: "string \<Rightarrow> bool" where
  "validOptionalPort port =
     (case port of
        [] \<Rightarrow> True
      | c # cs \<Rightarrow> c = CHR '':'' \<and> list_all is_digit cs)"

definition validUserinfo :: "string \<Rightarrow> bool" where
  "validUserinfo s =
     list_all (\<lambda>c. is_alpha c \<or> is_digit c \<or> c \<in> set ''-._:~!$&()*+,;=%@'' \<or> byte c = 39) s"

definition parseHost :: "string \<Rightarrow> url_reason + string" where
  "parseHost host =
     (if strings_HasPrefix host ''['' then
        (case strings_LastIndex host '']'' of
           None \<Rightarrow> Inl missing_bracket_in_host
         | Some i \<Rightarrow>
             if \<not> validOptionalPort (drop (Suc i) host) then Inl (invalid_port (drop (Suc i) host))
             else (case strings_Index (take i host) ''%25'' of
                     Some zone \<Rightarrow>
                       (case unescape (take zone host) encodeHost of
                          Inl e \<Rightarrow> Inl e
                        | Inr host1 \<Rightarrow>
                            (case unescape (drop zone (take i host)) encodeZone of
                               Inl e \<Rightarrow> Inl e
                             | Inr host2 \<Rightarrow>
                                 (case unescape (drop i host) encodeHost of
                                    Inl e \<Rightarrow> Inl e
                                  | Inr host3 \<Rightarrow> Inr (host1 @ host2 @ host3))))
                   | None \<Rightarrow> unescape host encodeHost))
      else
        (case strings_LastIndex host '':'' of
           Some i \<Rightarrow>
             if \<not> validOptionalPort (drop i host) then Inl (invalid_port (drop i host))
             else unescape host encodeHost
         | None \<Rightarrow> unescape host encodeHost))"

definition parseUserinfo :: "string \<Rightarrow> url_reason + url_Userinfo" where
  "parseUserinfo userinfo =
     (if \<not> validUserinfo userinfo then Inl invalid_userinfo
      else if \<not> strings_Contains userinfo '':'' then
        (case unescape userinfo encodeUserPassword of
           Inl e \<Rightarrow> Inl e
         | Inr u \<Rightarrow> Inr \<lparr>username = u, password = [], passwordSet = False\<rparr>)
      else
        (case strings_Cut userinfo '':'' of
           (uname, pw, _) \<Rightarrow>
             (case unescape uname encodeUserPassword of
                Inl e \<Rightarrow> Inl e
              | Inr u \<Rightarrow>
                  (case unescape pw encodeUserPassword of
                     Inl e \<Rightarrow> Inl e
                   | Inr p \<Rightarrow> Inr \<lparr>username = u, password = p, passwordSet = True\<rparr>))))"

definition parseAuthority :: "string \<Rightarrow> url_reason + url_Userinfo option \<times> string" where
  "parseAuthority authority =
     (case strings_LastIndex authority ''@'' of
        None \<Rightarrow>
          (case parseHost authority of
             Inl e \<Rightarrow> Inl e
           | Inr host \<Rightarrow> Inr (None, host))
      | Some i \<Rightarrow>
          (case parseHost (drop (Suc i) authority) of
             Inl e \<Rightarrow> Inl e
           | Inr host \<Rightarrow>
               (case parseUserinfo (take i authority) of
                  Inl e \<Rightarrow> Inl e
                | Inr u \<Rightarrow> Inr (Some u, host))))"

definition setPath :: "url_URL \<Rightarrow> string \<Rightarrow> url_reason + url_URL" where
  "setPath u p =
     (case unescape p encodePath of
        Inl e \<Rightarrow> Inl e
      | Inr path \<Rightarrow> Inr (u\<lparr>Path := path\<rparr>))"

definition setFragment :: "url_URL \<Rightarrow> string \<Rightarrow> url_reason + url_URL" where
  "setFragment u f =
     (case unescape f encodeFragment of
        Inl e \<Rightarrow> Inl e
      | Inr frag \<Rightarrow> Inr (u\<lparr>Fragment := frag\<rparr>))"

text \<open>
  \<^verbatim>\<open>parse(rawURL, viaRequest)\<close> with \<^verbatim>\<open>viaRequest = false\<close>, as \<^verbatim>\<open>url.Parse\<close> calls it. The
  first step splits the query off: a lone trailing \<^verbatim>\<open>?\<close> sets \<^verbatim>\<open>ForceQuery\<close>, otherwise the
  text after the first \<^verbatim>\<open>?\<close> is \<^verbatim>\<open>RawQuery\<close>, unchecked. A text with a scheme and no
  leading \<^verbatim>\<open>/\<close> is opaque.
\<close>

definition splitQuery :: "string \<Rightarrow> string \<times> bool \<times> string" where
  "splitQuery rest =
     (if strings_HasSuffix rest ''?'' \<and> strings_Count rest ''?'' = 1
      then (take (length rest - 1) rest, True, [])
      else (case strings_Cut rest ''?'' of (before, after, _) \<Rightarrow> (before, False, after)))"

definition splitAuthority :: "string \<Rightarrow> string \<times> string" where
  "splitAuthority rest =
     (let authority = drop 2 rest
      in case strings_Index authority ''/'' of
           Some i \<Rightarrow> (take i authority, drop i authority)
         | None \<Rightarrow> (authority, []))"

definition parseRest :: "url_URL \<Rightarrow> string \<Rightarrow> url_reason + url_URL" where
  "parseRest url rest =
     (if \<not> strings_HasPrefix rest ''/'' \<and> Scheme url \<noteq> [] then Inr (url\<lparr>Opaque := rest\<rparr>)
      else if \<not> strings_HasPrefix rest ''/''
              \<and> strings_Contains (fst (strings_Cut rest ''/'')) '':''
        then Inl first_path_segment_colon
      else if (Scheme url \<noteq> [] \<or> \<not> strings_HasPrefix rest ''///'')
              \<and> strings_HasPrefix rest ''//'' then
        (case splitAuthority rest of
           (authority, rest') \<Rightarrow>
             (case parseAuthority authority of
                Inl e \<Rightarrow> Inl e
              | Inr (user, host) \<Rightarrow> setPath (url\<lparr>User := user, Host := host\<rparr>) rest'))
      else setPath url rest)"

definition parse :: "string \<Rightarrow> url_reason + url_URL" where
  "parse rawURL =
     (if stringContainsCTLByte rawURL then Inl invalid_control_character
      else if rawURL = ''*'' then Inr (url_URL_zero\<lparr>Path := ''*''\<rparr>)
      else
        (case getScheme rawURL of
           Inl e \<Rightarrow> Inl e
         | Inr (scheme, rest0) \<Rightarrow>
             (case splitQuery rest0 of
                (rest, force, query) \<Rightarrow>
                  parseRest (url_URL_zero\<lparr>Scheme := strings_ToLower scheme,
                                          ForceQuery := force, RawQuery := query\<rparr>) rest)))"

definition url_Parse :: "string \<Rightarrow> url_Error + url_URL" where
  "url_Parse rawURL =
     (case strings_Cut rawURL ''#'' of
        (u, frag, _) \<Rightarrow>
          (case parse u of
             Inl e \<Rightarrow> Inl \<lparr>Op = ''parse'', URL_text = u, Err = e\<rparr>
           | Inr url \<Rightarrow>
               if frag = [] then Inr url
               else (case setFragment url frag of
                       Inl e \<Rightarrow> Inl \<lparr>Op = ''parse'', URL_text = rawURL, Err = e\<rparr>
                     | Inr url' \<Rightarrow> Inr url')))"

text \<open>
  \<^verbatim>\<open>u.Query()\<close> is \<^verbatim>\<open>ParseQuery(u.RawQuery)\<close> with the error dropped. \<^verbatim>\<open>url.Values\<close> is a
  \<^verbatim>\<open>map[string][]string\<close>; reading an absent key gives the empty slice, so the map is a
  total function here. The loop of \<^verbatim>\<open>parseQuery\<close> cuts the text at each \<^verbatim>\<open>&\<close>; a piece that
  holds a semicolon, is empty, or whose key or value does not unescape is skipped, and
  every other piece appends its value to the slice of its key.
\<close>

type_synonym url_Values = "string \<Rightarrow> string list"

definition parseQuery_piece :: "url_Values \<Rightarrow> string \<Rightarrow> url_Values" where
  "parseQuery_piece m piece =
     (if strings_Contains piece '';'' then m
      else if piece = [] then m
      else
        (case strings_Cut piece ''='' of
           (key, val, _) \<Rightarrow>
             (case url_QueryUnescape key of
                Inl e \<Rightarrow> m
              | Inr key' \<Rightarrow>
                  (case url_QueryUnescape val of
                     Inl e \<Rightarrow> m
                   | Inr val' \<Rightarrow> m(key' := m key' @ [val'])))))"

definition url_ParseQuery :: "string \<Rightarrow> url_Values" where
  "url_ParseQuery query = foldl parseQuery_piece (\<lambda>k. []) (strings_Split query ''&'')"

definition url_Query :: "url_URL \<Rightarrow> url_Values" where
  "url_Query u = url_ParseQuery (RawQuery u)"

definition Values_Get :: "url_Values \<Rightarrow> string \<Rightarrow> string" where
  "Values_Get v key = (case v key of [] \<Rightarrow> [] | x # xs \<Rightarrow> x)"

subsection \<open>Package strconv and the verb \<^verbatim>\<open>%d\<close>\<close>

text \<open>
  Go's \<^verbatim>\<open>int\<close> has 64 bits on the platforms the program is built for. \<^verbatim>\<open>strconv.Atoi\<close>
  reads an optional sign and decimal digits; a value outside the range of \<^verbatim>\<open>int\<close> gives the
  nearest bound together with a range error, any other text gives 0 and a syntax error.
\<close>

datatype strconv_error = ErrSyntax | ErrRange

definition maxInt :: int where
  "maxInt = 2 ^ 63 - 1"

definition minInt :: int where
  "minInt = - (2 ^ 63)"

definition digit_value :: "char \<Rightarrow> int" where
  "digit_value c = int (byte c) - 48"

definition decimal_value :: "string \<Rightarrow> int" where
  "decimal_value s = foldl (\<lambda>n c. n * 10 + digit_value c) 0 s"

definition strconv_Atoi :: "string \<Rightarrow> int \<times> strconv_error option" where
  "strconv_Atoi s =
     (let neg = (s \<noteq> [] \<and> hd s = CHR ''-'');
          ds = (if s \<noteq> [] \<and> (hd s = CHR ''-'' \<or> hd s = CHR ''+'') then tl s else s)
      in if ds = [] \<or> \<not> list_all is_digit ds then (0, Some ErrSyntax)
         else if neg then
           (if - decimal_value ds < minInt then (minInt, Some ErrRange)
            else (- decimal_value ds, None))
         else
           (if maxInt < decimal_value ds then (maxInt, Some ErrRange)
            else (decimal_value ds, None)))"

fun decimal :: "nat \<Rightarrow> string" where
  "decimal n = (if n < 10 then [char_of (48 + n)] else decimal (n div 10) @ [char_of (48 + n mod 10)])"

text \<open>\<^verbatim>\<open>strconv.Itoa\<close>, which is also what \<^verbatim>\<open>fmt\<close> prints for an \<^verbatim>\<open>int\<close> under \<^verbatim>\<open>%d\<close>.\<close>

definition strconv_Itoa :: "int \<Rightarrow> string" where
  "strconv_Itoa i = (if i < 0 then CHR ''-'' # decimal (nat (- i)) else decimal (nat i))"

subsection \<open>Package github.com/senseyeio/duration\<close>

text \<open>
  \<^verbatim>\<open>duration.Duration\<close> has the \<^verbatim>\<open>int\<close> fields \<^verbatim>\<open>Y M W D TH TM TS\<close>; the four one-letter names
  carry a prefix here. \<^verbatim>\<open>ParseISO8601\<close> matches the text against the pattern

  \<^verbatim>\<open>^P((?P<year>\d+)Y)?((?P<month>\d+)M)?((?P<week>\d+)W)?((?P<day>\d+)D)?\<close>
  \<^verbatim>\<open>(T((?P<hour>\d+)H)?((?P<minute>\d+)M)?((?P<second>\d+)S)?)?$\<close>

  and returns the zero value with \<^verbatim>\<open>ErrBadFormat\<close> when it does not match. Otherwise it
  walks the named groups in order and stores \<^verbatim>\<open>strconv.Atoi\<close> of each group that took part
  in the match; when \<^verbatim>\<open>Atoi\<close> fails it returns the value built so far together with that
  error. A group of the pattern can match in one way only (its digits must be followed
  by its own letter), so the match is found by reading the groups left to right.
\<close>

record duration_Duration =
  dur_Y :: int
  dur_M :: int
  dur_W :: int
  dur_D :: int
  TH :: int
  TM :: int
  TS :: int

definition duration_zero :: duration_Duration where
  "duration_zero = \<lparr>dur_Y = 0, dur_M = 0, dur_W = 0, dur_D = 0, TH = 0, TM = 0, TS = 0\<rparr>"

datatype duration_error = ErrBadFormat | AtoiError strconv_error

definition group :: "char \<Rightarrow> string \<Rightarrow> string \<times> string" where
  "group letter s =
     (let ds = takeWhile is_digit s; r = dropWhile is_digit s
      in if ds \<noteq> [] \<and> r \<noteq> [] \<and> hd r = letter then (ds, tl r) else ([], s))"

definition time_groups :: "string \<Rightarrow> (string \<times> string \<times> string) option" where
  "time_groups s =
     (case s of
        [] \<Rightarrow> Some ([], [], [])
      | c # r0 \<Rightarrow>
          if c \<noteq> CHR ''T'' then None
          else
            (case group (CHR ''H'') r0 of (h, r1) \<Rightarrow>
             case group (CHR ''M'') r1 of (mi, r2) \<Rightarrow>
             case group (CHR ''S'') r2 of (sec, r3) \<Rightarrow>
               if r3 = [] then Some (h, mi, sec) else None))"

definition pattern_FindStringSubmatch :: "string \<Rightarrow> string list option" where
  "pattern_FindStringSubmatch s =
     (case s of
        [] \<Rightarrow> None
      | c # r0 \<Rightarrow>
          if c \<noteq> CHR ''P'' then None
          else
            (case group (CHR ''Y'') r0 of (y, r1) \<Rightarrow>
             case group (CHR ''M'') r1 of (mo, r2) \<Rightarrow>
             case group (CHR ''W'') r2 of (w, r3) \<Rightarrow>
             case group (CHR ''D'') r3 of (d, r4) \<Rightarrow>
               (case time_groups r4 of
                  None \<Rightarrow> None
                | Some (h, mi, sec) \<Rightarrow> Some [y, mo, w, d, h, mi, sec])))"

definition pattern_MatchString :: "string \<Rightarrow> bool" where
  "pattern_MatchString s = (pattern_FindStringSubmatch s \<noteq> None)"

definition setters :: "(int \<Rightarrow> duration_Duration \<Rightarrow> duration_Duration) list" where
  "setters = [\<lambda>v d. d\<lparr>dur_Y := v\<rparr>, \<lambda>v d. d\<lparr>dur_M := v\<rparr>, \<lambda>v d. d\<lparr>dur_W := v\<rparr>,
              \<lambda>v d. d\<lparr>dur_D := v\<rparr>, \<lambda>v d. d\<lparr>TH := v\<rparr>, \<lambda>v d. d\<lparr>TM := v\<rparr>,
              \<lambda>v d. d\<lparr>TS := v\<rparr>]"

fun store_groups ::
  "duration_Duration \<Rightarrow> ((int \<Rightarrow> duration_Duration \<Rightarrow> duration_Duration) \<times> string) list
     \<Rightarrow> duration_Duration \<times> duration_error option" where
  "store_groups d [] = (d, None)"
| "store_groups d ((set_field, part) # rest) =
     (if part = [] then store_groups d rest
      else
        (case strconv_Atoi part of
           (val, Some e) \<Rightarrow> (d, Some (AtoiError e))
         | (val, None) \<Rightarrow> store_groups (set_field val d) rest))"

definition duration_ParseISO8601 :: "string \<Rightarrow> duration_Duration \<times> duration_error option" where
  "duration_ParseISO8601 from =
     (case pattern_FindStringSubmatch from of
        None \<Rightarrow> (duration_zero, Some ErrBadFormat)
      | Some match \<Rightarrow> store_groups duration_zero (zip setters match))"

subsection \<open>Package time\<close>

text \<open>
  A \<^verbatim>\<open>time.Time\<close> is an instant together with a location. It is modelled by what its
  methods show: the calendar date and clock time in its location, and the abbreviation
  and offset (seconds east of UTC) of the zone in effect there. The zero \<^verbatim>\<open>Time\<close> is
  January 1 of year 1, 00:00:00 UTC. The zone of \<^verbatim>\<open>time.Local\<close> depends on the machine; it is
  a parameter \<open>local\<close>, the function from Unix seconds to the name and offset in effect.
\<close>

record time_Time =
  year :: int
  month :: int
  day :: int
  hour :: int
  minute :: int
  second :: int
  nanosecond :: int
  zone_name :: string
  zone_offset :: int

definition time_zero :: time_Time where
  "time_zero = \<lparr>year = 1, month = 1, day = 1, hour = 0, minute = 0, second = 0,
     nanosecond = 0, zone_name = ''UTC'', zone_offset = 0\<rparr>"

datatype time_error = errBad | out_of_range string | extra_text

definition isLeap :: "int \<Rightarrow> bool" where
  "isLeap y = (y mod 4 = 0 \<and> (y mod 100 \<noteq> 0 \<or> y mod 400 = 0))"

definition daysIn :: "int \<Rightarrow> int \<Rightarrow> int" where
  "daysIn m y =
     (if m = 2 then (if isLeap y then 29 else 28)
      else if m = 4 \<or> m = 6 \<or> m = 9 \<or> m = 11 then 30 else 31)"

text \<open>Days from 1970-01-01 to a date of the proleptic Gregorian calendar, and the Unix
  time of a clock reading taken at offset 0.\<close>

definition daysSinceEpoch :: "int \<Rightarrow> int \<Rightarrow> int \<Rightarrow> int" where
  "daysSinceEpoch y m d =
     (let y' = (if m \<le> 2 then y - 1 else y);
          era = y' div 400;
          yoe = y' - era * 400;
          doy = (153 * ((m + 9) mod 12) + 2) div 5 + d - 1;
          doe = yoe * 365 + yoe div 4 - yoe div 100 + doy
      in era * 146097 + doe - 719468)"

definition unixSec :: "int \<Rightarrow> int \<Rightarrow> int \<Rightarrow> int \<Rightarrow> int \<Rightarrow> int \<Rightarrow> int" where
  "unixSec y m d hh mm ss = daysSinceEpoch y m d * 86400 + hh * 3600 + mm * 60 + ss"

text \<open>\<^verbatim>\<open>getnum\<close> reads one or two digits; \<open>fixed\<close> demands two.\<close>

definition getnum :: "string \<Rightarrow> bool \<Rightarrow> time_error + int \<times> string" where
  "getnum s fixed =
     (case s of
        [] \<Rightarrow> Inl errBad
      | c # cs \<Rightarrow>
          if \<not> is_digit c then Inl errBad
          else
            (case cs of
               [] \<Rightarrow> if fixed then Inl errBad else Inr (digit_value c, cs)
             | d # ds \<Rightarrow>
                 if is_digit d then Inr (digit_value c * 10 + digit_value d, ds)
                 else if fixed then Inl errBad
                 else Inr (digit_value c, cs)))"

text \<open>\<^verbatim>\<open>skip\<close> for a one-byte literal of the layout (\<^verbatim>\<open>-\<close>, \<^verbatim>\<open>T\<close>, \<^verbatim>\<open>:\<close>).\<close>

definition skip :: "string \<Rightarrow> char \<Rightarrow> time_error + string" where
  "skip s c = (case s of [] \<Rightarrow> Inl errBad | x # xs \<Rightarrow> if x = c then Inr xs else Inl errBad)"

definition bind :: "'e + 'a \<Rightarrow> ('a \<Rightarrow> 'e + 'b) \<Rightarrow> 'e + 'b" where
  "bind r f = (case r of Inl e \<Rightarrow> Inl e | Inr x \<Rightarrow> f x)"

definition in_range :: "string \<Rightarrow> bool \<Rightarrow> 'a \<Rightarrow> time_error + 'a" where
  "in_range what ok x = (if ok then Inr x else Inl (out_of_range what))"

definition parseYear :: "string \<Rightarrow> time_error + int \<times> string" where
  "parseYear s =
     (if length s < 4 \<or> \<not> list_all is_digit (take 4 s) then Inl errBad
      else Inr (decimal_value (take 4 s), drop 4 s))"

text \<open>
  A fractional second may follow the seconds although the layout has none: a period or
  comma and digits. At most nine digits count, scaled to nanoseconds.
\<close>

definition parseFraction :: "string \<Rightarrow> int \<times> string" where
  "parseFraction s =
     (case s of
        c # d # r \<Rightarrow>
          if (c = CHR ''.'' \<or> c = CHR '','') \<and> is_digit d then
            (let ds = takeWhile is_digit (d # r); kept = take 9 ds
             in (decimal_value kept * 10 ^ (9 - length kept), dropWhile is_digit (d # r)))
          else (0, s)
      | _ \<Rightarrow> (0, s))"

text \<open>The element \<^verbatim>\<open>Z07:00\<close>: a \<^verbatim>\<open>Z\<close> for UTC, or sign, two digits, colon, two digits.\<close>

definition parseZone :: "string \<Rightarrow> time_error + int option \<times> string" where
  "parseZone s =
     (if s \<noteq> [] \<and> hd s = CHR ''Z'' then Inr (None, tl s)
      else if length s < 6 then Inl errBad
      else if s ! 3 \<noteq> CHR '':'' then Inl errBad
      else
        bind (getnum (take 2 (drop 1 s)) True) (\<lambda>(hr, _).
        bind (getnum (take 2 (drop 4 s)) True) (\<lambda>(mm, _).
        bind (in_range ''time zone offset minute'' (mm \<le> 60) ()) (\<lambda>_.
        bind (in_range ''time zone offset hour'' (hr \<le> 24) ()) (\<lambda>_.
          if hd s = CHR ''+'' then Inr (Some ((hr * 60 + mm) * 60), drop 6 s)
          else if hd s = CHR ''-'' then Inr (Some (- ((hr * 60 + mm) * 60)), drop 6 s)
          else Inl errBad)))))"

definition parse_RFC3339 :: "(int \<Rightarrow> string \<times> int) \<Rightarrow> string \<Rightarrow> time_error + time_Time" where
  "parse_RFC3339 local v0 =
     bind (parseYear v0) (\<lambda>(y, v1).
     bind (skip v1 (CHR ''-'')) (\<lambda>v2.
     bind (getnum v2 True) (\<lambda>(mo, v3).
     bind (in_range ''month'' (0 < mo \<and> mo \<le> 12) ()) (\<lambda>_.
     bind (skip v3 (CHR ''-'')) (\<lambda>v4.
     bind (getnum v4 True) (\<lambda>(d, v5).
     bind (skip v5 (CHR ''T'')) (\<lambda>v6.
     bind (getnum v6 False) (\<lambda>(hh, v7).
     bind (in_range ''hour'' (hh < 24) ()) (\<lambda>_.
     bind (skip v7 (CHR '':'')) (\<lambda>v8.
     bind (getnum v8 True) (\<lambda>(mi, v9).
     bind (in_range ''minute'' (mi < 60) ()) (\<lambda>_.
     bind (skip v9 (CHR '':'')) (\<lambda>v10.
     bind (getnum v10 True) (\<lambda>(ss, v11).
     bind (in_range ''second'' (ss < 60) ()) (\<lambda>_.
     case parseFraction v11 of (ns, v12) \<Rightarrow>
     bind (parseZone v12) (\<lambda>(z, v13).
       if v13 \<noteq> [] then Inl extra_text
       else if d < 1 \<or> daysIn mo y < d then Inl (out_of_range ''day'')
       else
         (case z of
            None \<Rightarrow>
              Inr \<lparr>year = y, month = mo, day = d, hour = hh, minute = mi, second = ss,
                   nanosecond = ns, zone_name = ''UTC'', zone_offset = 0\<rparr>
          | Some off \<Rightarrow>
              (case local (unixSec y mo d hh mi ss - off) of
                 (name, offset) \<Rightarrow>
                   Inr \<lparr>year = y, month = mo, day = d, hour = hh, minute = mi, second = ss,
                        nanosecond = ns,
                        zone_name = (if offset = off then name else []),
                        zone_offset = off\<rparr>))))))))))))))))))"

text \<open>
  \<^verbatim>\<open>time.Parse(time.RFC3339, value)\<close>: the layout is the constant
  \<^verbatim>\<open>2006-01-02T15:04:05Z07:00\<close>, the only one the program passes. Every failure returns the
  zero \<^verbatim>\<open>Time\<close> beside the error.
\<close>

definition time_Parse_RFC3339 ::
  "(int \<Rightarrow> string \<times> int) \<Rightarrow> string \<Rightarrow> time_Time \<times> time_error option" where
  "time_Parse_RFC3339 local v =
     (case parse_RFC3339 local v of
        Inl e \<Rightarrow> (time_zero, Some e)
      | Inr t \<Rightarrow> (t, None))"

text \<open>\<^verbatim>\<open>appendInt\<close>: a sign for a negative number, then the digits padded with zeros.\<close>

definition appendInt :: "int \<Rightarrow> nat \<Rightarrow> string" where
  "appendInt x width =
     (let ds = decimal (nat \<bar>x\<bar>)
      in (if x < 0 then ''-'' else []) @ replicate (width - length ds) (CHR ''0'') @ ds)"

text \<open>Go's \<^verbatim>\<open>/\<close> and \<^verbatim>\<open>%\<close> on \<^verbatim>\<open>int\<close> round towards zero.\<close>

definition quo :: "int \<Rightarrow> int \<Rightarrow> int" where
  "quo a b = sgn a * sgn b * (\<bar>a\<bar> div \<bar>b\<bar>)"

definition appendFraction :: "int \<Rightarrow> string" where
  "appendFraction ns =
     (if ns = 0 then []
      else CHR ''.'' # rev (dropWhile (\<lambda>c. c = CHR ''0'') (rev (appendInt ns 9))))"

definition appendZone :: "int \<Rightarrow> bool \<Rightarrow> string" where
  "appendZone offset colon =
     (let zone = quo offset 60
      in (if zone < 0 then ''-'' else ''+'') @ appendInt (quo \<bar>zone\<bar> 60) 2
         @ (if colon then '':'' else []) @ appendInt (\<bar>zone\<bar> mod 60) 2)"

definition appendClock :: "time_Time \<Rightarrow> string" where
  "appendClock t = appendInt (hour t) 2 @ '':'' @ appendInt (minute t) 2 @ '':'' @ appendInt (second t) 2"

definition appendDate :: "time_Time \<Rightarrow> string" where
  "appendDate t = appendInt (year t) 4 @ ''-'' @ appendInt (month t) 2 @ ''-'' @ appendInt (day t) 2"

text \<open>\<^verbatim>\<open>t.Format(time.RFC3339)\<close>, layout \<^verbatim>\<open>2006-01-02T15:04:05Z07:00\<close>.\<close>

definition Format_RFC3339 :: "time_Time \<Rightarrow> string" where
  "Format_RFC3339 t =
     appendDate t @ ''T'' @ appendClock t
       @ (if zone_offset t = 0 then ''Z'' else appendZone (zone_offset t) True)"

text \<open>\<^verbatim>\<open>t.String()\<close> for a \<^verbatim>\<open>Time\<close> without monotonic clock reading, layout
  \<^verbatim>\<open>2006-01-02 15:04:05.999999999 -0700 MST\<close>; a zone without abbreviation prints its
  offset in the last place.\<close>

definition Time_String :: "time_Time \<Rightarrow> string" where
  "Time_String t =
     appendDate t @ '' '' @ appendClock t @ appendFraction (nanosecond t) @ '' ''
       @ appendZone (zone_offset t) False @ '' ''
       @ (if zone_name t \<noteq> [] then zone_name t else appendZone (zone_offset t) False)"

subsection \<open>The records of discordgo and of the YouTube client\<close>

text \<open>
  Of \<^verbatim>\<open>discordgo.MessageCreate\<close> the handler reads the author's \<^verbatim>\<open>ID\<close> and \<^verbatim>\<open>Bot\<close> flag, the
  \<^verbatim>\<open>Content\<close> and the \<^verbatim>\<open>ChannelID\<close>; the gateway fills in the author of every created
  message, so \<^verbatim>\<open>m.Author\<close> is a record here. Of \<^verbatim>\<open>discordgo.MessageEmbed\<close> the fields the
  program sets are kept; a field it leaves out of the literal holds Go's zero value (the
  empty string, \<^verbatim>\<open>nil\<close>). A pointer that may be \<^verbatim>\<open>nil\<close> is an \<^typ>\<open>'a option\<close>.
\<close>

record discordgo_User =
  ID :: string
  Bot :: bool

record discordgo_MessageCreate =
  Author :: discordgo_User
  Content :: string
  ChannelID :: string

record discordgo_MessageEmbedField =
  Name :: string
  Value :: string
  Inline :: bool

record discordgo_MessageEmbedImage =
  Image_URL :: string

record discordgo_MessageEmbedThumbnail =
  Thumbnail_URL :: string

record discordgo_MessageEmbedAuthor =
  Author_URL :: string
  Author_Name :: string
  Author_IconURL :: string

record discordgo_MessageEmbed =
  Embed_URL :: string
  Embed_Type :: string
  Embed_Title :: string
  Embed_Description :: string
  Embed_Timestamp :: string
  Embed_Color :: int
  Embed_Image :: "discordgo_MessageEmbedImage option"
  Embed_Thumbnail :: "discordgo_MessageEmbedThumbnail option"
  Embed_Author :: "discordgo_MessageEmbedAuthor option"
  Embed_Fields :: "discordgo_MessageEmbedField list"

definition EmbedTypeRich :: string where
  "EmbedTypeRich = ''rich''"

text \<open>
  A \<^verbatim>\<open>youtube.Video\<close> as the API client decodes it: \<^verbatim>\<open>Snippet\<close>, \<^verbatim>\<open>ContentDetails\<close>,
  \<^verbatim>\<open>Snippet.Thumbnails\<close> and \<^verbatim>\<open>Thumbnails.High\<close> are pointers, \<^verbatim>\<open>nil\<close> when the response
  lacks the part. The items of a response are the videos the decoder built, none of them
  \<^verbatim>\<open>nil\<close>.
\<close>

record youtube_Thumbnail =
  Url :: string

record youtube_ThumbnailDetails =
  High :: "youtube_Thumbnail option"

record youtube_VideoSnippet =
  ChannelId :: string
  ChannelTitle :: string
  Description :: string
  PublishedAt :: string
  Thumbnails :: "youtube_ThumbnailDetails option"
  Title :: string

record youtube_VideoContentDetails =
  Duration :: string

record youtube_Video =
  Video_Id :: string
  Snippet :: "youtube_VideoSnippet option"
  ContentDetails :: "youtube_VideoContentDetails option"

record youtube_VideoListResponse =
  Items :: "youtube_Video list"

section \<open>The program\<close>

subsection \<open>Errors and the world outside\<close>

text \<open>
  A Go \<^verbatim>\<open>error\<close> is observed through \<^verbatim>\<open>Error()\<close> only. The program creates three errors with
  \<^verbatim>\<open>fmt.Errorf\<close>; the others come from the API client or from the chat session and carry
  their message.

  What the handler cannot compute is a parameter, the record \<open>env\<close>: the clock
  (\<^verbatim>\<open>time.Now()\<close>), the local time zone, the answer of the API call
  \<^verbatim>\<open>youtubeService.Videos.List(part).Id(id).MaxResults(n).Do()\<close>, the result of
  \<^verbatim>\<open>s.ChannelMessageSendEmbed\<close>, and \<^verbatim>\<open>strconv.Quote\<close> (it rests on Unicode tables; only the
  message of a URL parse error uses it).
\<close>

datatype error =
    Failed_to_parse_URL url_Error
  | URL_Schema_not_valid
  | Item_not_found
  | external_error string

record env =
  strconv_Quote :: "string \<Rightarrow> string"
  Local :: "int \<Rightarrow> string \<times> int"
  Now :: time_Time
  Videos_List_Do :: "string list \<Rightarrow> string \<Rightarrow> int \<Rightarrow> error + youtube_VideoListResponse"
  ChannelMessageSendEmbed :: "string \<Rightarrow> discordgo_MessageEmbed \<Rightarrow> error option"

definition apostrophe :: string where
  "apostrophe = [CHR 0x27]"

fun url_reason_Error :: "(string \<Rightarrow> string) \<Rightarrow> url_reason \<Rightarrow> string" where
  "url_reason_Error q invalid_control_character = ''net/url: invalid control character in URL''"
| "url_reason_Error q missing_protocol_scheme = ''missing protocol scheme''"
| "url_reason_Error q first_path_segment_colon = ''first path segment in URL cannot contain colon''"
| "url_reason_Error q (EscapeError s) = ''invalid URL escape '' @ q s"
| "url_reason_Error q (InvalidHostError s) = ''invalid character '' @ q s @ '' in host name''"
| "url_reason_Error q missing_bracket_in_host =
     ''missing '' @ apostrophe @ '']'' @ apostrophe @ '' in host''"
| "url_reason_Error q (invalid_port s) = ''invalid port '' @ q s @ '' after host''"
| "url_reason_Error q invalid_userinfo = ''net/url: invalid userinfo''"

definition url_Error_Error :: "(string \<Rightarrow> string) \<Rightarrow> url_Error \<Rightarrow> string" where
  "url_Error_Error q e = Op e @ '' '' @ q (URL_text e) @ '': '' @ url_reason_Error q (Err e)"

fun Error :: "env \<Rightarrow> error \<Rightarrow> string" where
  "Error w (Failed_to_parse_URL e) = ''Failed to parse URL : '' @ url_Error_Error (strconv_Quote w) e"
| "Error w URL_Schema_not_valid = ''URL Schema not valid''"
| "Error w Item_not_found = ''Item not found''"
| "Error w (external_error msg) = msg"

text \<open>What a call of the handler does to the outside: the embeds it hands to
  \<^verbatim>\<open>ChannelMessageSendEmbed\<close>, with the channel, and the lines it logs.\<close>

datatype effect =
    Send string discordgo_MessageEmbed
  | logrus_Errorf string error

text \<open>A \<^verbatim>\<open>nil\<close> pointer dereference panics; nothing in the program recovers.\<close>

datatype panic = nil_pointer_dereference

subsection \<open>\<^verbatim>\<open>getVideoID\<close>\<close>

definition command :: string where
  "command = ''!rec''"

definition getVideoID :: "string \<Rightarrow> error + string" where
  "getVideoID s =
     (case url_Parse s of
        Inl err \<Rightarrow> Inl (Failed_to_parse_URL err)
      | Inr u \<Rightarrow>
          (let q = url_Query u;
               videoID = Values_Get q ''v''
           in if videoID \<noteq> [] then Inr videoID
              else if strings_HasPrefix s ''https://youtu.be/''
                then Inr (strings_TrimPrefix s ''https://youtu.be/'')
              else Inl URL_Schema_not_valid))"

subsection \<open>\<^verbatim>\<open>sendError\<close> and \<^verbatim>\<open>sendRecommend\<close>\<close>

text \<open>The field names are Japanese text, given by their UTF-8 bytes:
  \<open>sender_label\<close> is U+30B3 U+30DE U+30F3 U+30C9 U+9001 U+4FE1 U+8005,
  \<open>channel_name_label\<close> is U+30C1 U+30E3 U+30F3 U+30CD U+30EB U+540D,
  \<open>published_label\<close> is U+516C U+958B U+65E5 U+6642, \<open>length_label\<close> is U+9577 U+3055;
  in the duration text \<open>hours_word\<close> is U+6642 U+9593, \<open>minutes_word\<close> is U+5206 and
  \<open>seconds_word\<close> is U+79D2.\<close>

definition sender_label :: string where
  "sender_label = [CHR 0xE3, CHR 0x82, CHR 0xB3, CHR 0xE3, CHR 0x83, CHR 0x9E, CHR 0xE3, CHR 0x83,
     CHR 0xB3, CHR 0xE3, CHR 0x83, CHR 0x89, CHR 0xE9, CHR 0x80, CHR 0x81, CHR 0xE4, CHR 0xBF,
     CHR 0xA1, CHR 0xE8, CHR 0x80, CHR 0x85]"

definition channel_name_label :: string where
  "channel_name_label = [CHR 0xE3, CHR 0x83, CHR 0x81, CHR 0xE3, CHR 0x83, CHR 0xA3, CHR 0xE3,
     CHR 0x83, CHR 0xB3, CHR 0xE3, CHR 0x83, CHR 0x8D, CHR 0xE3, CHR 0x83, CHR 0xAB, CHR 0xE5,
     CHR 0x90, CHR 0x8D]"

definition published_label :: string where
  "published_label = [CHR 0xE5, CHR 0x85, CHR 0xAC, CHR 0xE9, CHR 0x96, CHR 0x8B, CHR 0xE6,
     CHR 0x97, CHR 0xA5, CHR 0xE6, CHR 0x99, CHR 0x82]"

definition length_label :: string where
  "length_label = [CHR 0xE9, CHR 0x95, CHR 0xB7, CHR 0xE3, CHR 0x81, CHR 0x95]"

definition hours_word :: string where
  "hours_word = [CHR 0xE6, CHR 0x99, CHR 0x82, CHR 0xE9, CHR 0x96, CHR 0x93]"

definition minutes_word :: string where
  "minutes_word = [CHR 0xE5, CHR 0x88, CHR 0x86]"

definition seconds_word :: string where
  "seconds_word = [CHR 0xE7, CHR 0xA7, CHR 0x92]"

record recommend =
  title :: string
  URL :: string
  imageURL :: string
  channelName :: string
  channelThumbnailURL :: string
  channelURL :: string
  description :: string
  duration :: duration_Duration
  publishedAt :: time_Time

definition mention :: "discordgo_MessageCreate \<Rightarrow> string" where
  "mention m = ''<@'' @ ID (Author m) @ ''>''"

definition error_embed :: "env \<Rightarrow> discordgo_MessageCreate \<Rightarrow> error \<Rightarrow> discordgo_MessageEmbed" where
  "error_embed w m e =
     \<lparr>Embed_URL = [],
      Embed_Type = [],
      Embed_Title = ''ERROR'',
      Embed_Description = Error w e,
      Embed_Timestamp = Format_RFC3339 (Now w),
      Embed_Color = 0xff0000,
      Embed_Image = None,
      Embed_Thumbnail = None,
      Embed_Author = None,
      Embed_Fields = [\<lparr>Name = sender_label, Value = mention m, Inline = False\<rparr>]\<rparr>"

definition sendError ::
  "env \<Rightarrow> discordgo_MessageCreate \<Rightarrow> error \<Rightarrow> effect list \<times> error option" where
  "sendError w m e =
     (let embed = error_embed w m e
      in ([Send (ChannelID m) embed], ChannelMessageSendEmbed w (ChannelID m) embed))"

definition duration_text :: "duration_Duration \<Rightarrow> string" where
  "duration_text d =
     strconv_Itoa (TH d) @ hours_word @ strconv_Itoa (TM d) @ minutes_word
       @ strconv_Itoa (TS d) @ seconds_word"

definition recommend_embed :: "env \<Rightarrow> discordgo_MessageCreate \<Rightarrow> recommend \<Rightarrow> discordgo_MessageEmbed" where
  "recommend_embed w m r =
     \<lparr>Embed_URL = URL r,
      Embed_Type = EmbedTypeRich,
      Embed_Title = title r,
      Embed_Description = description r,
      Embed_Timestamp = Format_RFC3339 (Now w),
      Embed_Color = 0x00ff00,
      Embed_Image = Some \<lparr>Image_URL = imageURL r\<rparr>,
      Embed_Thumbnail = Some \<lparr>Thumbnail_URL = []\<rparr>,
      Embed_Author = Some \<lparr>Author_URL = channelURL r, Author_Name = channelName r,
                             Author_IconURL = channelThumbnailURL r\<rparr>,
      Embed_Fields =
        [\<lparr>Name = channel_name_label, Value = channelName r, Inline = True\<rparr>,
         \<lparr>Name = ''URL'', Value = channelURL r, Inline = True\<rparr>,
         \<lparr>Name = published_label, Value = Time_String (publishedAt r), Inline = False\<rparr>,
         \<lparr>Name = length_label, Value = duration_text (duration r), Inline = True\<rparr>,
         \<lparr>Name = ''RECOMMENDED BY'', Value = mention m, Inline = False\<rparr>]\<rparr>"

definition sendRecommend ::
  "env \<Rightarrow> discordgo_MessageCreate \<Rightarrow> recommend \<Rightarrow> effect list \<times> error option" where
  "sendRecommend w m r =
     (let embed = recommend_embed w m r
      in ([Send (ChannelID m) embed], ChannelMessageSendEmbed w (ChannelID m) embed))"

subsection \<open>\<^verbatim>\<open>messageHandler\<close>\<close>

text \<open>
  Lines 125 to 137 of \<^verbatim>\<open>messageHandler\<close> build the \<^verbatim>\<open>recommend\<close> value from the one item of
  the response; the specification calls this step \<^verbatim>\<open>mapMetadata\<close>. Both parse errors are
  assigned to \<^verbatim>\<open>_\<close>: the value returned beside the error is used as it is.
\<close>

definition mapMetadata :: "env \<Rightarrow> youtube_Video \<Rightarrow> panic + recommend" where
  "mapMetadata w item =
     (case ContentDetails item of
        None \<Rightarrow> Inl nil_pointer_dereference
      | Some details \<Rightarrow>
     (case Snippet item of
        None \<Rightarrow> Inl nil_pointer_dereference
      | Some snippet \<Rightarrow>
     (case Thumbnails snippet of
        None \<Rightarrow> Inl nil_pointer_dereference
      | Some thumbnails \<Rightarrow>
     (case High thumbnails of
        None \<Rightarrow> Inl nil_pointer_dereference
      | Some high \<Rightarrow>
          Inr \<lparr>title = Title snippet,
               URL = ''https://www.youtube.com/watch?v='' @ Video_Id item,
               imageURL = Url high,
               channelName = ChannelTitle snippet,
               channelThumbnailURL = [],
               channelURL = ''https://www.youtube.com/channel/'' @ ChannelId snippet,
               description = Description snippet,
               duration = fst (duration_ParseISO8601 (Duration details)),
               publishedAt = fst (time_Parse_RFC3339 (Local w) (PublishedAt snippet))\<rparr>))))"

definition messageHandler :: "env \<Rightarrow> discordgo_MessageCreate \<Rightarrow> panic + effect list" where
  "messageHandler w m =
     (if Bot (Author m) then Inr []
      else
        (let commands = strings_Split (Content m) '' ''
         in if length commands \<noteq> 2 then Inr []
            else if commands ! 0 \<noteq> command then Inr []
            else
              (case getVideoID (commands ! 1) of
                 Inl err \<Rightarrow> Inr (fst (sendError w m err))
               | Inr videoID \<Rightarrow>
                   (case Videos_List_Do w [''id'', ''snippet'', ''contentDetails''] videoID 1 of
                      Inl err \<Rightarrow> Inr (fst (sendError w m err))
                    | Inr resp \<Rightarrow>
                        if length (Items resp) \<noteq> 1 then Inr (fst (sendError w m Item_not_found))
                        else
                          (case mapMetadata w (Items resp ! 0) of
                             Inl p \<Rightarrow> Inl p
                           | Inr r \<Rightarrow>
                               (case sendRecommend w m r of
                                  (effects, None) \<Rightarrow> Inr effects
                                | (effects, Some err) \<Rightarrow>
                                    Inr (effects @ [logrus_Errorf ''ERROR :'' err])))))))"

section \<open>Notions of the specification\<close>

text \<open>
  The specification's extractor recognises two shapes. \<open>yields_v\<close> says that the text parses
  as a URL whose query gives a non-empty value for \<^verbatim>\<open>v\<close>: what \<^verbatim>\<open>u.Query().Get("v")\<close> returns,
  which is the first value of the key, unescaped, among the pairs \<^verbatim>\<open>Query\<close> keeps (it drops a
  pair that does not unescape or holds a semicolon). \<open>youtu_be\<close> is the literal prefix of the
  second shape. The error kind \<^verbatim>\<open>InvalidReference\<close> covers the two errors \<^verbatim>\<open>getVideoID\<close>
  creates.
\<close>

definition youtu_be :: string where
  "youtu_be = ''https://youtu.be/''"

definition yields_v :: "string \<Rightarrow> bool" where
  "yields_v s =
     (case url_Parse s of
        Inl e \<Rightarrow> False
      | Inr u \<Rightarrow> Values_Get (url_Query u) ''v'' \<noteq> [])"

definition InvalidReference :: "error \<Rightarrow> bool" where
  "InvalidReference e =
     (case e of
        Failed_to_parse_URL x \<Rightarrow> True
      | URL_Schema_not_valid \<Rightarrow> True
      | _ \<Rightarrow> False)"

text \<open>The bytes a video identifier is made of: letters, digits, \<^verbatim>\<open>-\<close> and \<^verbatim>\<open>_\<close>.\<close>

definition id_char :: "char \<Rightarrow> bool" where
  "id_char c = (is_alpha c \<or> is_digit c \<or> c = CHR ''-'' \<or> c = CHR ''_'')"

text \<open>
  The specification speaks of the whitespace-delimited tokens of a message. Following its
  words, \<open>spec_whitespace_tokens\<close> cuts a text at every run of whitespace (space, tab, line
  feed, vertical tab, form feed, carriage return) and keeps the non-empty pieces. The
  program itself calls \<^verbatim>\<open>strings.Split(m.Content, " ")\<close>.
\<close>

definition is_space :: "char \<Rightarrow> bool" where
  "is_space c = (byte c = 32 \<or> (9 \<le> byte c \<and> byte c \<le> 13))"

fun tokens_from :: "string \<Rightarrow> string \<Rightarrow> string list" where
  "tokens_from cur [] = (if cur = [] then [] else [rev cur])"
| "tokens_from cur (c # cs) =
     (if is_space c then (if cur = [] then tokens_from [] cs else rev cur # tokens_from [] cs)
      else tokens_from (c # cur) cs)"

definition spec_whitespace_tokens :: "string \<Rightarrow> string list" where
  "spec_whitespace_tokens s = tokens_from [] s"





text \<open>
  A valid ISO-8601 duration: the letter \<^verbatim>\<open>P\<close>, then components, each a run of digits
  followed by its designator, in the order \<^verbatim>\<open>Y M W D\<close>, then, if there are time components,
  the letter \<^verbatim>\<open>T\<close> and components with the designators \<^verbatim>\<open>H M S\<close> in this order. There is at
  least one component, and \<^verbatim>\<open>T\<close> is absent when no time component follows. \<open>designated\<close>
  reads the components for a list of designators and counts them.
\<close>

fun designated :: "string \<Rightarrow> string \<Rightarrow> nat \<times> string" where
  "designated [] s = (0, s)"
| "designated (letter # letters) s =
     (let ds = takeWhile is_digit s; r = dropWhile is_digit s
      in if ds \<noteq> [] \<and> r \<noteq> [] \<and> hd r = letter
         then (case designated letters (tl r) of (n, rest) \<Rightarrow> (Suc n, rest))
         else designated letters s)"

definition spec_valid_ISO8601_duration :: "string \<Rightarrow> bool" where
  "spec_valid_ISO8601_duration s =
     (case s of
        [] \<Rightarrow> False
      | c # r \<Rightarrow>
          c = CHR ''P'' \<and>
          (case designated ''YMWD'' r of
             (n, r') \<Rightarrow>
               if r' = [] then 0 < n
               else hd r' = CHR ''T'' \<and>
                    (case designated ''HMS'' (tl r') of (k, r'') \<Rightarrow> 0 < k \<and> r'' = [])))"

text \<open>
  A valid RFC3339 timestamp (section 5.6 of the RFC): \<^verbatim>\<open>YYYY-MM-DDThh:mm:ss\<close> with a month
  from 01 to 12, a day of that month, an hour up to 23, a minute up to 59 and a second up
  to 60, then an optional fraction (a period and digits), then \<^verbatim>\<open>Z\<close> or an offset
  \<^verbatim>\<open>+hh:mm\<close> or \<^verbatim>\<open>-hh:mm\<close> with an hour up to 23 and a minute up to 59. The letters \<^verbatim>\<open>T\<close> and
  \<^verbatim>\<open>Z\<close> may be written in lower case.
\<close>

definition two_digit :: "string \<Rightarrow> nat \<Rightarrow> int option" where
  "two_digit s i =
     (if i + 1 < length s \<and> is_digit (s ! i) \<and> is_digit (s ! (i + 1))
      then Some (digit_value (s ! i) * 10 + digit_value (s ! (i + 1))) else None)"

definition spec_valid_offset :: "string \<Rightarrow> bool" where
  "spec_valid_offset z =
     (z = ''Z'' \<or> z = ''z'' \<or>
      (length z = 6 \<and> (hd z = CHR ''+'' \<or> hd z = CHR ''-'') \<and> z ! 3 = CHR '':'' \<and>
       (case (two_digit z 1, two_digit z 4) of
          (Some hh, Some mm) \<Rightarrow> hh \<le> 23 \<and> mm \<le> 59
        | _ \<Rightarrow> False)))"

definition spec_valid_RFC3339 :: "string \<Rightarrow> bool" where
  "spec_valid_RFC3339 s =
     (19 < length s \<and> list_all is_digit (take 4 s)
      \<and> s ! 4 = CHR ''-'' \<and> s ! 7 = CHR ''-'' \<and> (s ! 10 = CHR ''T'' \<or> s ! 10 = CHR ''t'')
      \<and> s ! 13 = CHR '':'' \<and> s ! 16 = CHR '':''
      \<and> (case (two_digit s 5, two_digit s 8, two_digit s 11, two_digit s 14, two_digit s 17) of
            (Some mo, Some d, Some hh, Some mi, Some ss) \<Rightarrow>
              1 \<le> mo \<and> mo \<le> 12 \<and> 1 \<le> d \<and> d \<le> daysIn mo (decimal_value (take 4 s))
              \<and> hh \<le> 23 \<and> mi \<le> 59 \<and> ss \<le> 60
          | _ \<Rightarrow> False)
      \<and> (let r = drop 19 s
          in if hd r = CHR ''.''
             then takeWhile is_digit (tl r) \<noteq> [] \<and> spec_valid_offset (dropWhile is_digit (tl r))
             else spec_valid_offset r))"

text \<open>The part list of the API call, and the log line of a failed send of the success
  card (\<^verbatim>\<open>logrus.Errorf("ERROR :", err)\<close>).\<close>

definition parts :: "string list" where
  "parts = [''id'', ''snippet'', ''contentDetails'']"

definition log_of :: "error option \<Rightarrow> effect list" where
  "log_of result = (case result of None \<Rightarrow> [] | Some err \<Rightarrow> [logrus_Errorf ''ERROR :'' err])"

section \<open>Concrete inputs\<close>

text \<open>
  The inputs of the specification's scenarios: a requester \<^verbatim>\<open>u1\<close> writing in channel
  \<^verbatim>\<open>c9\<close>, a provider record for \<^verbatim>\<open>abc123\<close> with duration \<^verbatim>\<open>PT1H2M3S\<close> published at
  \<^verbatim>\<open>2021-01-01T00:00:00Z\<close>, and a world whose API call returns the given items, whose sends
  succeed and whose local zone is UTC. \<open>bare_item\<close> is a record with empty texts and
  malformed duration and publish time; \<open>two_line_text\<close> is a command followed by a second
  line.
\<close>

definition scenario_item :: youtube_Video where
  "scenario_item =
     \<lparr>Video_Id = ''abc123'',
      Snippet = Some \<lparr>ChannelId = ''UC42'', ChannelTitle = ''Some Channel'', Description = ''about'',
                      PublishedAt = ''2021-01-01T00:00:00Z'',
                      Thumbnails = Some \<lparr>High = Some \<lparr>Url = ''https://i.ytimg.com/vi/abc123/hq.jpg''\<rparr>\<rparr>,
                      Title = ''A video''\<rparr>,
      ContentDetails = Some \<lparr>Duration = ''PT1H2M3S''\<rparr>\<rparr>"

definition bare_item :: youtube_Video where
  "bare_item =
     \<lparr>Video_Id = ''abc123'',
      Snippet = Some \<lparr>ChannelId = ''UC42'', ChannelTitle = [], Description = [],
                      PublishedAt = ''yesterday'',
                      Thumbnails = Some \<lparr>High = Some \<lparr>Url = []\<rparr>\<rparr>,
                      Title = []\<rparr>,
      ContentDetails = Some \<lparr>Duration = ''1h''\<rparr>\<rparr>"

definition scenario_env :: "youtube_Video list \<Rightarrow> env" where
  "scenario_env items =
     \<lparr>strconv_Quote = (\<lambda>s. CHR 0x22 # s @ [CHR 0x22]),
      Local = (\<lambda>u. (''UTC'', 0)),
      Now = time_zero,
      Videos_List_Do = (\<lambda>part videoID n. Inr \<lparr>Items = items\<rparr>),
      ChannelMessageSendEmbed = (\<lambda>channel embed. None)\<rparr>"

definition scenario_message :: "bool \<Rightarrow> string \<Rightarrow> discordgo_MessageCreate" where
  "scenario_message is_bot content =
     \<lparr>Author = \<lparr>ID = ''u1'', Bot = is_bot\<rparr>, Content = content, ChannelID = ''c9''\<rparr>"

definition scenario_text :: string where
  "scenario_text = ''!rec https://www.youtube.com/watch?v=abc123''"

definition scenario_time :: time_Time where
  "scenario_time = \<lparr>year = 2021, month = 1, day = 1, hour = 0, minute = 0, second = 0,
     nanosecond = 0, zone_name = ''UTC'', zone_offset = 0\<rparr>"

definition scenario_duration_text :: string where
  "scenario_duration_text = ''1'' @ hours_word @ ''2'' @ minutes_word @ ''3'' @ seconds_word"

definition two_line_text :: string where
  "two_line_text = ''!rec a'' @ [CHR 0x0A] @ ''b''"

text \<open>Three more inputs: a record whose minutes do not fit an \<^verbatim>\<open>int\<close>, a record without
  \<^verbatim>\<open>contentDetails\<close>, and a world whose API call fails.\<close>

definition overflow_item :: youtube_Video where
  "overflow_item = scenario_item\<lparr>ContentDetails := Some \<lparr>Duration = ''PT1H99999999999999999999M''\<rparr>\<rparr>"

definition partial_item :: youtube_Video where
  "partial_item = scenario_item\<lparr>ContentDetails := None\<rparr>"

definition failing_env :: env where
  "failing_env = (scenario_env [])\<lparr>Videos_List_Do := (\<lambda>part videoID n. Inl (external_error ''quota exceeded''))\<rparr>"

text \<open>
  Four more records. Two differ from the record of the scenario in one text that the
  parsers of the program accept: the duration \<^verbatim>\<open>P1DT\<close>, whose \<^verbatim>\<open>T\<close> has no time component
  after it, and the publish time \<^verbatim>\<open>2021-01-01T00:00:00+24:60\<close>, whose offset is out of range.
  One has the duration and publish time of the scenario but no thumbnails, one is the
  record of another video.
\<close>

definition trailing_T_item :: youtube_Video where
  "trailing_T_item = scenario_item\<lparr>ContentDetails := Some \<lparr>Duration = ''P1DT''\<rparr>\<rparr>"

definition offset_item :: youtube_Video where
  "offset_item =
     scenario_item\<lparr>Snippet := Some \<lparr>ChannelId = ''UC42'', ChannelTitle = ''Some Channel'',
                      Description = ''about'', PublishedAt = ''2021-01-01T00:00:00+24:60'',
                      Thumbnails = Some \<lparr>High = Some \<lparr>Url = ''https://i.ytimg.com/vi/abc123/hq.jpg''\<rparr>\<rparr>,
                      Title = ''A video''\<rparr>\<rparr>"

definition no_thumbnail_item :: youtube_Video where
  "no_thumbnail_item =
     \<lparr>Video_Id = ''abc123'',
      Snippet = Some \<lparr>ChannelId = ''UC42'', ChannelTitle = ''Some Channel'', Description = ''about'',
                      PublishedAt = ''2021-01-01T00:00:00Z'', Thumbnails = None, Title = ''A video''\<rparr>,
      ContentDetails = Some \<lparr>Duration = ''PT1H2M3S''\<rparr>\<rparr>"

definition other_id_item :: youtube_Video where
  "other_id_item = scenario_item\<lparr>Video_Id := ''zzz999''\<rparr>"

section \<open>Evaluations and general facts\<close>

lemma fst_sendError: "fst (sendError w m e) = [Send (ChannelID m) (error_embed w m e)]"
  by (simp add: sendError_def Let_def)

lemma fst_sendRecommend: "fst (sendRecommend w m r) = [Send (ChannelID m) (recommend_embed w m r)]"
  by (simp add: sendRecommend_def Let_def)

lemma messageHandler_success:
  assumes "\<not> Bot (Author m)" and "strings_Split (Content m) '' '' = [command, arg]"
    and "getVideoID arg = Inr videoID" and "Videos_List_Do w parts videoID 1 = Inr resp"
    and "Items resp = [item]" and "mapMetadata w item = Inr r"
  shows "messageHandler w m =
           Inr (Send (ChannelID m) (recommend_embed w m r)
                  # log_of (ChannelMessageSendEmbed w (ChannelID m) (recommend_embed w m r)))"
  using assms
  by (simp add: messageHandler_def parts_def sendRecommend_def Let_def log_of_def split: option.splits)

lemma split_scenario:
  "strings_Split ''!rec https://www.youtube.com/watch?v=abc123'' '' ''
     = [''!rec'', ''https://www.youtube.com/watch?v=abc123'']"
  by code_simp

lemma getVideoID_watch: "getVideoID ''https://www.youtube.com/watch?v=abc123'' = Inr ''abc123''"
  by code_simp

lemma parse_duration_scenario:
  "duration_ParseISO8601 ''PT1H2M3S''
     = (\<lparr>dur_Y = 0, dur_M = 0, dur_W = 0, dur_D = 0, TH = 1, TM = 2, TS = 3\<rparr>, None)"
  by code_simp

lemma parse_time_scenario:
  "time_Parse_RFC3339 local ''2021-01-01T00:00:00Z'' = (scenario_time, None)"
  by (simp add: time_Parse_RFC3339_def parse_RFC3339_def bind_def parseYear_def skip_def getnum_def
        in_range_def parseFraction_def parseZone_def is_digit_def byte_def decimal_value_def
        digit_value_def daysIn_def isLeap_def scenario_time_def)

lemma duration_text_scenario:
  "duration_text \<lparr>dur_Y = 0, dur_M = 0, dur_W = 0, dur_D = 0, TH = 1, TM = 2, TS = 3\<rparr>
     = scenario_duration_text"
  by code_simp

lemma parse_watch:
  "url_Parse ''https://www.youtube.com/watch?v=abc123&t=10#top'' =
     Inr \<lparr>Scheme = ''https'', Opaque = [], User = None, Host = ''www.youtube.com'',
          Path = ''/watch'', ForceQuery = False, RawQuery = ''v=abc123&t=10'', Fragment = ''top''\<rparr>"
  by code_simp

lemma query_watch:
  "Values_Get (url_Query \<lparr>Scheme = ''https'', Opaque = [], User = None, Host = ''www.youtube.com'',
          Path = ''/watch'', ForceQuery = False, RawQuery = ''v=abc123&t=10'', Fragment = ''top''\<rparr>) ''v''
     = ''abc123''"
  by code_simp

lemma parse_short:
  "url_Parse ''https://youtu.be/abc123'' =
     Inr \<lparr>Scheme = ''https'', Opaque = [], User = None, Host = ''youtu.be'',
          Path = ''/abc123'', ForceQuery = False, RawQuery = [], Fragment = []\<rparr>"
  by code_simp

lemma query_short:
  "Values_Get (url_Query \<lparr>Scheme = ''https'', Opaque = [], User = None, Host = ''youtu.be'',
          Path = ''/abc123'', ForceQuery = False, RawQuery = [], Fragment = []\<rparr>) ''v'' = []"
  by code_simp

lemma prefix_short: "strings_HasPrefix ''https://youtu.be/abc123'' youtu_be"
  by code_simp

lemma trim_short: "strings_TrimPrefix ''https://youtu.be/abc123'' youtu_be = ''abc123''"
  by code_simp

lemma split_short:
  "strings_Split ''!rec https://youtu.be/abc123'' '' '' = [command, ''https://youtu.be/abc123'']"
  by code_simp

lemma getVideoID_short: "getVideoID ''https://youtu.be/abc123'' = Inr ''abc123''"
  by code_simp

lemma not_yields_plain: "\<not> yields_v ''not-a-url''"
  by code_simp

lemma not_prefix_plain: "\<not> strings_HasPrefix ''not-a-url'' youtu_be"
  by code_simp

lemma three_parts: "length (strings_Split ''!rec a b'' '' '') = 3"
  by code_simp

lemma other_command: "strings_Split ''!other a'' '' '' ! 0 = ''!other''"
  by code_simp

lemma ParseISO8601_no_match:
  "\<not> pattern_MatchString s \<Longrightarrow> duration_ParseISO8601 s = (duration_zero, Some ErrBadFormat)"
  by (simp add: pattern_MatchString_def duration_ParseISO8601_def)

lemma time_Parse_error:
  "snd (time_Parse_RFC3339 local s) \<noteq> None \<Longrightarrow> fst (time_Parse_RFC3339 local s) = time_zero"
  by (simp add: time_Parse_RFC3339_def split: sum.splits)

lemma no_match_1h: "\<not> pattern_MatchString ''1h''"
  by code_simp

lemma time_error_yesterday: "snd (time_Parse_RFC3339 local ''yesterday'') = Some errBad"
  by (simp add: time_Parse_RFC3339_def parse_RFC3339_def bind_def parseYear_def is_digit_def byte_def)

lemma mapMetadata_bare:
  "mapMetadata w bare_item =
     Inr \<lparr>title = [], URL = ''https://www.youtube.com/watch?v=abc123'', imageURL = [],
          channelName = [], channelThumbnailURL = [],
          channelURL = ''https://www.youtube.com/channel/UC42'', description = [],
          duration = duration_zero, publishedAt = time_zero\<rparr>"
proof -
  have d: "duration_ParseISO8601 ''1h'' = (duration_zero, Some ErrBadFormat)"
    by (rule ParseISO8601_no_match [OF no_match_1h])
  have t: "fst (time_Parse_RFC3339 (Local w) ''yesterday'') = time_zero"
    by (rule time_Parse_error) (simp add: time_error_yesterday)
  show ?thesis
    by (simp add: mapMetadata_def bare_item_def d t)
qed

subsection \<open>Facts about the URL parser\<close>

lemma HasPrefix_single: "strings_HasPrefix (x # xs) [c] = (x = c)"
  by (simp add: strings_HasPrefix_def)

lemma Index_absent: "c \<notin> set s \<Longrightarrow> strings_Index s [c] = None"
  by (induction s) (auto simp: HasPrefix_single)

lemma Index_first: "c \<notin> set a \<Longrightarrow> strings_Index (a @ c # b) [c] = Some (length a)"
  by (induction a) (auto simp: HasPrefix_single)

lemma Cut_absent: "c \<notin> set s \<Longrightarrow> strings_Cut s [c] = (s, [], False)"
  by (simp add: strings_Cut_def Index_absent)

lemma Cut_first: "c \<notin> set a \<Longrightarrow> strings_Cut (a @ c # b) [c] = (a, b, True)"
  by (simp add: strings_Cut_def Index_first)

lemma Contains_single: "strings_Contains s [c] = (c \<in> set s)"
  unfolding strings_Contains_def by (induction s) (auto simp: HasPrefix_single)

lemma HasSuffix_single: "strings_HasSuffix s [c] \<Longrightarrow> c \<in> set s"
proof -
  assume "strings_HasSuffix s [c]"
  then have "drop (length s - 1) s = [c]"
    by (simp add: strings_HasSuffix_def)
  then have "c \<in> set (drop (length s - 1) s)" by simp
  then show ?thesis by (rule in_set_dropD)
qed

lemma HasSuffix_last: "strings_HasSuffix s [c] \<Longrightarrow> s \<noteq> [] \<and> last s = c"
proof -
  assume h: "strings_HasSuffix s [c]"
  then have ne: "s \<noteq> []" by (auto simp: strings_HasSuffix_def)
  from h have "drop (length s - 1) s = [c]" by (simp add: strings_HasSuffix_def)
  moreover have "drop (length s - 1) s = [last s]" using ne
    by (metis append_butlast_last_id append_eq_conv_conj length_butlast)
  ultimately show ?thesis using ne by simp
qed

lemma Count_single: "count_from 0 s [c] = length (filter (\<lambda>x. x = c) s)"
  by (induction s) (auto simp: HasPrefix_single)

lemma unescape_plain:
  "CHR ''%'' \<notin> set s \<Longrightarrow> CHR ''+'' \<notin> set s \<Longrightarrow> mode \<noteq> encodeHost \<Longrightarrow> mode \<noteq> encodeZone
     \<Longrightarrow> unescape s mode = Inr s"
  by (induction s) auto

lemma id_char_facts:
  assumes "id_char c"
  shows "c \<noteq> CHR ''%''" "c \<noteq> CHR ''+''" "c \<noteq> CHR ''?''" "c \<noteq> CHR ''#''" "c \<noteq> CHR ''&''"
    "c \<noteq> CHR '';''" "c \<noteq> CHR ''=''" "\<not> (byte c < 32 \<or> byte c = 127)"
  using assms by (auto simp: id_char_def is_alpha_def is_digit_def byte_def)

lemma id_chars_set:
  assumes "list_all id_char s"
  shows "CHR ''%'' \<notin> set s" "CHR ''+'' \<notin> set s" "CHR ''?'' \<notin> set s" "CHR ''#'' \<notin> set s"
    "CHR ''&'' \<notin> set s" "CHR '';'' \<notin> set s" "CHR ''='' \<notin> set s"
    "\<not> stringContainsCTLByte s"
proof -
  have a: "\<And>c. c \<in> set s \<Longrightarrow> id_char c"
    using assms by (simp add: list_all_iff)
  show "CHR ''%'' \<notin> set s" using a id_char_facts(1) by blast
  show "CHR ''+'' \<notin> set s" using a id_char_facts(2) by blast
  show "CHR ''?'' \<notin> set s" using a id_char_facts(3) by blast
  show "CHR ''#'' \<notin> set s" using a id_char_facts(4) by blast
  show "CHR ''&'' \<notin> set s" using a id_char_facts(5) by blast
  show "CHR '';'' \<notin> set s" using a id_char_facts(6) by blast
  show "CHR ''='' \<notin> set s" using a id_char_facts(7) by blast
  show "\<not> stringContainsCTLByte s"
    unfolding stringContainsCTLByte_def list_ex_iff using a id_char_facts(8) by blast
qed

lemma CTL_append: "stringContainsCTLByte (a @ b) = (stringContainsCTLByte a \<or> stringContainsCTLByte b)"
  by (auto simp: stringContainsCTLByte_def list_ex_iff)

lemma splitQuery_plain: "CHR ''?'' \<notin> set s \<Longrightarrow> splitQuery s = (s, False, [])"
  using HasSuffix_single [of s "CHR ''?''"]
  by (auto simp: splitQuery_def Cut_absent)

lemma parseAuthority_youtu_be: "parseAuthority ''youtu.be'' = Inr (None, ''youtu.be'')"
  by code_simp

lemma ParseQuery_empty: "Values_Get (url_ParseQuery []) k = []"
  by (simp add: url_ParseQuery_def strings_Split_def parseQuery_piece_def Values_Get_def
      strings_Contains_def)

lemma url_Parse_short_link:
  assumes "list_all id_char ident"
  shows "url_Parse (youtu_be @ ident) =
           Inr \<lparr>Scheme = ''https'', Opaque = [], User = None, Host = ''youtu.be'',
                Path = CHR ''/'' # ident, ForceQuery = False, RawQuery = [], Fragment = []\<rparr>"
proof -
  note ic = id_chars_set [OF assms]
  define s where "s = youtu_be @ ident"
  define rest where "rest = ''//youtu.be/'' @ ident"
  define path where "path = CHR ''/'' # ident"
  have cut: "strings_Cut s ''#'' = (s, [], False)"
    by (rule Cut_absent) (simp add: s_def youtu_be_def ic)
  have ctl: "\<not> stringContainsCTLByte s"
    unfolding s_def CTL_append using ic(8)
    by (simp add: stringContainsCTLByte_def youtu_be_def byte_def)
  have star: "s \<noteq> ''*''"
    by (simp add: s_def youtu_be_def)
  have sch: "getScheme s = Inr (''https'', rest)"
    by (simp add: s_def rest_def getScheme_def youtu_be_def is_alpha_def is_digit_def byte_def)
  have sq: "splitQuery rest = (rest, False, [])"
    by (rule splitQuery_plain) (simp add: rest_def ic)
  have low: "strings_ToLower ''https'' = ''https''"
    by code_simp
  have sa: "splitAuthority rest = (''youtu.be'', path)"
    by (simp add: rest_def path_def splitAuthority_def strings_HasPrefix_def)
  have un: "unescape path encodePath = Inr path"
    by (rule unescape_plain) (simp_all add: path_def ic)
  have hp: "strings_HasPrefix rest ''/''" "strings_HasPrefix rest ''//''"
    by (simp_all add: rest_def strings_HasPrefix_def)
  have pr: "parseRest (url_URL_zero\<lparr>Scheme := ''https'', ForceQuery := False, RawQuery := []\<rparr>) rest
             = Inr \<lparr>Scheme = ''https'', Opaque = [], User = None, Host = ''youtu.be'',
                Path = path, ForceQuery = False, RawQuery = [], Fragment = []\<rparr>"
    by (simp add: parseRest_def hp sa parseAuthority_youtu_be setPath_def un url_URL_zero_def)
  have "parse s = Inr \<lparr>Scheme = ''https'', Opaque = [], User = None, Host = ''youtu.be'',
                Path = path, ForceQuery = False, RawQuery = [], Fragment = []\<rparr>"
    using ctl star by (simp add: parse_def sch sq low pr)
  then have "url_Parse s = Inr \<lparr>Scheme = ''https'', Opaque = [], User = None, Host = ''youtu.be'',
                Path = path, ForceQuery = False, RawQuery = [], Fragment = []\<rparr>"
    by (simp add: url_Parse_def cut)
  then show ?thesis
    by (simp add: s_def path_def)
qed

lemma parseRest_RawQuery: "parseRest url rest = Inr url' \<Longrightarrow> RawQuery url' = RawQuery url"
  by (auto simp: parseRest_def setPath_def split: if_splits prod.splits sum.splits)

lemma parse_RawQuery:
  assumes "parse raw = Inr url" and "raw \<noteq> ''*''"
  shows "\<exists>sch rest0. getScheme raw = Inr (sch, rest0) \<and> RawQuery url = snd (snd (splitQuery rest0))"
proof -
  from assms obtain sch rest0 where g: "getScheme raw = Inr (sch, rest0)"
    by (auto simp: parse_def split: if_splits sum.splits)
  obtain rest force query where q: "splitQuery rest0 = (rest, force, query)"
    by (cases "splitQuery rest0")
  from assms g q have "parseRest (url_URL_zero\<lparr>Scheme := strings_ToLower sch,
        ForceQuery := force, RawQuery := query\<rparr>) rest = Inr url"
    by (simp add: parse_def split: if_splits)
  then have "RawQuery url = query"
    by (simp add: parseRest_RawQuery)
  with g q show ?thesis by simp
qed

lemma getScheme_from_query:
  assumes "CHR ''?'' \<notin> set p" and "CHR ''?'' \<notin> set a"
    and "getScheme_from (p @ a @ CHR ''?'' # q) (length p) (a @ CHR ''?'' # q) = Inr (sch, rest0)"
  shows "\<exists>a'. rest0 = a' @ CHR ''?'' # q \<and> CHR ''?'' \<notin> set a'"
  using assms
proof (induction a arbitrary: p)
  case Nil
  then show ?case
    by (auto simp: is_alpha_def is_digit_def byte_def)
next
  case (Cons c a)
  have c: "c \<noteq> CHR ''?''" using Cons.prems(2) by auto
  have raw: "p @ (c # a) @ CHR ''?'' # q = (p @ [c]) @ a @ CHR ''?'' # q" by simp
  have step: "getScheme_from ((p @ [c]) @ a @ CHR ''?'' # q) (length (p @ [c])) (a @ CHR ''?'' # q)
                = Inr (sch, rest0)
              \<Longrightarrow> \<exists>a'. rest0 = a' @ CHR ''?'' # q \<and> CHR ''?'' \<notin> set a'"
    using Cons.IH [of "p @ [c]"] Cons.prems(1,2) c by simp
  from Cons.prems(3) consider
      (recurse) "getScheme_from ((p @ [c]) @ a @ CHR ''?'' # q) (length (p @ [c])) (a @ CHR ''?'' # q)
                = Inr (sch, rest0)"
    | (whole) "rest0 = p @ (c # a) @ CHR ''?'' # q"
    | (colon) "rest0 = a @ CHR ''?'' # q"
    by (auto simp: raw split: if_splits)
  then show ?case
  proof cases
    case recurse
    then show ?thesis by (rule step)
  next
    case whole
    then show ?thesis using Cons.prems(1,2)
      by (intro exI [of _ "p @ c # a"]) simp
  next
    case colon
    then show ?thesis using Cons.prems(2)
      by (intro exI [of _ a]) simp
  qed
qed

lemma getScheme_query:
  assumes "CHR ''?'' \<notin> set a" and "getScheme (a @ CHR ''?'' # q) = Inr (sch, rest0)"
  shows "\<exists>a'. rest0 = a' @ CHR ''?'' # q \<and> CHR ''?'' \<notin> set a'"
  using getScheme_from_query [of "[]" a q sch rest0] assms
  by (simp add: getScheme_def)

lemma splitQuery_first:
  assumes "CHR ''?'' \<notin> set a" and "q \<noteq> []"
  shows "splitQuery (a @ CHR ''?'' # q) = (a, False, q)"
proof -
  have "\<not> (strings_HasSuffix (a @ CHR ''?'' # q) ''?'' \<and> strings_Count (a @ CHR ''?'' # q) ''?'' = 1)"
  proof
    assume h: "strings_HasSuffix (a @ CHR ''?'' # q) ''?'' \<and> strings_Count (a @ CHR ''?'' # q) ''?'' = 1"
    then have "last (a @ CHR ''?'' # q) = CHR ''?''"
      using HasSuffix_last by blast
    with assms(2) have "last q = CHR ''?''" by simp
    with assms(2) have "CHR ''?'' \<in> set q"
      using last_in_set by metis
    then have "filter (\<lambda>x. x = CHR ''?'') q \<noteq> []"
      by (simp add: filter_empty_conv)
    then have "0 < length (filter (\<lambda>x. x = CHR ''?'') q)" by simp
    with h show False
      by (simp add: strings_Count_def Count_single)
  qed
  then show ?thesis
    using Cut_first [OF assms(1)] by (simp add: splitQuery_def)
qed

lemma Index_takeWhile:
  "strings_Index s [c] = (if c \<in> set s then Some (length (takeWhile (\<lambda>x. x \<noteq> c) s)) else None)"
  by (induction s) (auto simp: HasPrefix_single)

lemma Cut_takeWhile: "fst (strings_Cut s [c]) = takeWhile (\<lambda>x. x \<noteq> c) s"
proof (cases "c \<in> set s")
  case True
  then show ?thesis
    by (simp add: strings_Cut_def Index_takeWhile takeWhile_eq_take [symmetric])
next
  case False
  then have tw: "takeWhile (\<lambda>x. x \<noteq> c) s = s"
    by (induction s) auto
  have "fst (strings_Cut s [c]) = s"
    using False by (simp add: strings_Cut_def Index_takeWhile)
  then show ?thesis
    by (simp only: tw)
qed

lemma split_from_plain: "CHR ''&'' \<notin> set x \<Longrightarrow> split_from 0 cur x ''&'' = [rev cur @ x]"
  by (induction x arbitrary: cur) (auto simp: HasPrefix_single)

lemma split_from_amp:
  "CHR ''&'' \<notin> set x \<Longrightarrow>
     split_from 0 cur (x @ CHR ''&'' # r) ''&'' = (rev cur @ x) # split_from 0 [] r ''&''"
  by (induction x arbitrary: cur) (auto simp: HasPrefix_single)

lemma Split_first:
  assumes "CHR ''&'' \<notin> set x" and "r = [] \<or> hd r = CHR ''&''"
  shows "\<exists>ps. strings_Split (x @ r) ''&'' = x # ps"
proof (cases r)
  case Nil
  then show ?thesis using assms(1) by (simp add: strings_Split_def split_from_plain)
next
  case (Cons c r')
  with assms(2) have "r = CHR ''&'' # r'" by simp
  then show ?thesis using assms(1) by (simp add: strings_Split_def split_from_amp)
qed

lemma parseQuery_piece_grows:
  "parseQuery_piece m piece k = m k \<or> (\<exists>v. parseQuery_piece m piece k = m k @ [v])"
  by (auto simp: parseQuery_piece_def split: prod.splits sum.splits)

lemma foldl_piece_head:
  "m k \<noteq> [] \<Longrightarrow> foldl parseQuery_piece m ps k \<noteq> [] \<and> hd (foldl parseQuery_piece m ps k) = hd (m k)"
proof (induction ps arbitrary: m)
  case Nil
  then show ?case by simp
next
  case (Cons p ps)
  from parseQuery_piece_grows [of m p k] Cons.prems
  have "parseQuery_piece m p k \<noteq> [] \<and> hd (parseQuery_piece m p k) = hd (m k)"
    by auto
  with Cons.IH [of "parseQuery_piece m p"] show ?case by simp
qed

lemma piece_v:
  assumes "list_all id_char ident" and "piece = ''v='' @ ident"
  shows "parseQuery_piece m piece ''v'' = m ''v'' @ [ident]"
proof -
  note ic = id_chars_set [OF assms(1)]
  have c: "strings_Cut piece ''='' = (''v'', ident, True)"
    using Cut_first [of "CHR ''=''" "''v''" ident] by (simp add: assms(2))
  have s: "\<not> strings_Contains piece '';''"
    by (simp add: Contains_single ic assms(2))
  have n: "piece \<noteq> []"
    by (simp add: assms(2))
  have u: "url_QueryUnescape ident = Inr ident"
    unfolding url_QueryUnescape_def by (rule unescape_plain) (simp_all add: ic)
  have v: "url_QueryUnescape ''v'' = Inr ''v''"
    by code_simp
  show ?thesis
    unfolding parseQuery_piece_def c using s n by (simp add: u v)
qed

lemma Get_first_v:
  assumes "list_all id_char ident" and "ident \<noteq> []" and "r = [] \<or> hd r = CHR ''&''"
  shows "Values_Get (url_ParseQuery (''v='' @ ident @ r)) ''v'' = ident"
proof -
  define piece where "piece = ''v='' @ ident"
  have "CHR ''&'' \<notin> set piece"
    using id_chars_set(5) [OF assms(1)] by (simp add: piece_def)
  from Split_first [OF this assms(3)] obtain ps
    where ps: "strings_Split (piece @ r) ''&'' = piece # ps" by blast
  define m where "m = parseQuery_piece (\<lambda>k. []) piece"
  have "m ''v'' = [ident]"
    unfolding m_def by (simp add: piece_v [OF assms(1) piece_def])
  then have "foldl parseQuery_piece m ps ''v'' \<noteq> [] \<and> hd (foldl parseQuery_piece m ps ''v'') = ident"
    using foldl_piece_head [of m "''v''" ps] by simp
  then have "Values_Get (foldl parseQuery_piece m ps) ''v'' = ident"
    by (cases "foldl parseQuery_piece m ps ''v''") (simp_all add: Values_Get_def)
  moreover have "url_ParseQuery (piece @ r) = foldl parseQuery_piece m ps"
    by (simp add: url_ParseQuery_def ps m_def)
  moreover have "''v='' @ ident @ r = piece @ r"
    by (simp add: piece_def)
  ultimately show ?thesis by metis
qed

lemma takeWhile_absent:
  "c \<notin> set a \<Longrightarrow> takeWhile (\<lambda>x. x \<noteq> c) (a @ b) = a @ takeWhile (\<lambda>x. x \<noteq> c) b"
  by (induction a) auto

lemma url_Parse_RawQuery:
  assumes "url_Parse s = Inr u"
  shows "\<exists>url. parse (fst (strings_Cut s ''#'')) = Inr url \<and> RawQuery u = RawQuery url"
  using assms
  by (auto simp: url_Parse_def setFragment_def split: prod.splits sum.splits if_splits)

lemma short_link_identifier:
  assumes "list_all id_char ident"
  shows "getVideoID (youtu_be @ ident) = Inr ident"
proof -
  have p: "strings_HasPrefix (youtu_be @ ident) ''https://youtu.be/''"
    by (simp add: strings_HasPrefix_def youtu_be_def)
  have t: "strings_TrimPrefix (youtu_be @ ident) ''https://youtu.be/'' = ident"
    by (simp add: strings_TrimPrefix_def strings_HasPrefix_def youtu_be_def)
  show ?thesis
    unfolding getVideoID_def url_Parse_short_link [OF assms]
    by (simp add: url_Query_def ParseQuery_empty p t)
qed

lemma watch_link_identifier:
  assumes "url_Parse (pre @ ''?v='' @ ident @ rest) = Inr u"
    and "CHR ''?'' \<notin> set pre" and "CHR ''#'' \<notin> set pre"
    and "ident \<noteq> []" and "list_all id_char ident"
    and "rest = [] \<or> hd rest = CHR ''&'' \<or> hd rest = CHR ''#''"
  shows "getVideoID (pre @ ''?v='' @ ident @ rest) = Inr ident"
proof -
  note ic = id_chars_set [OF assms(5)]
  define s where "s = pre @ ''?v='' @ ident @ rest"
  define r where "r = takeWhile (\<lambda>x. x \<noteq> CHR ''#'') rest"
  define q where "q = ''v='' @ ident @ r"
  have r: "r = [] \<or> hd r = CHR ''&''"
    using assms(6) by (cases rest) (auto simp: r_def)
  have q: "q \<noteq> []"
    by (simp add: q_def)
  have "takeWhile (\<lambda>x. x \<noteq> CHR ''#'') s = pre @ CHR ''?'' # q"
    using assms(3) ic(4) by (simp add: s_def q_def r_def takeWhile_absent)
  then have cut: "fst (strings_Cut s ''#'') = pre @ CHR ''?'' # q"
    by (simp add: Cut_takeWhile)
  have "url_Parse s = Inr u"
    using assms(1) by (simp add: s_def)
  from url_Parse_RawQuery [OF this] obtain url
    where url: "parse (pre @ CHR ''?'' # q) = Inr url" "RawQuery u = RawQuery url"
    unfolding cut by blast
  have "pre @ CHR ''?'' # q \<noteq> ''*''"
    using q by (cases pre) auto
  from parse_RawQuery [OF url(1) this] obtain sch rest0
    where g: "getScheme (pre @ CHR ''?'' # q) = Inr (sch, rest0)"
      and rq: "RawQuery url = snd (snd (splitQuery rest0))"
    by blast
  from getScheme_query [OF assms(2) g] obtain a
    where a: "rest0 = a @ CHR ''?'' # q" "CHR ''?'' \<notin> set a"
    by blast
  have "RawQuery u = q"
    using url(2) rq a splitQuery_first [OF a(2) q] by simp
  moreover have "Values_Get (url_ParseQuery q) ''v'' = ident"
    unfolding q_def by (rule Get_first_v [OF assms(5) assms(4) r])
  ultimately have "Values_Get (url_Query u) ''v'' = ident"
    by (simp add: url_Query_def)
  with assms(1,4) show ?thesis
    by (simp add: getVideoID_def)
qed

lemma id_chars_example: "list_all id_char ''dQw4w9WgXcQ''"
  by code_simp

lemma id_chars_abc123: "list_all id_char ''abc123''"
  by code_simp

lemma parse_watch_parts:
  "url_Parse (''https://www.youtube.com/watch'' @ ''?v='' @ ''abc123'' @ ''&t=10#top'') =
     Inr \<lparr>Scheme = ''https'', Opaque = [], User = None, Host = ''www.youtube.com'',
          Path = ''/watch'', ForceQuery = False, RawQuery = ''v=abc123&t=10'', Fragment = ''top''\<rparr>"
  using parse_watch by simp

subsection \<open>Facts about the parameters of a query\<close>








subsection \<open>Facts about the duration and time parsers\<close>

lemma spec_validity_examples:
  "spec_valid_ISO8601_duration ''PT1H2M3S'' \<and> spec_valid_ISO8601_duration ''P1D''
   \<and> spec_valid_ISO8601_duration ''PT1H99999999999999999999M''
   \<and> \<not> spec_valid_ISO8601_duration ''1h'' \<and> \<not> spec_valid_ISO8601_duration ''P''
   \<and> spec_valid_RFC3339 ''2021-01-01T00:00:00Z'' \<and> spec_valid_RFC3339 ''2021-01-01T00:00:00.5+09:00''
   \<and> \<not> spec_valid_RFC3339 ''yesterday'' \<and> \<not> spec_valid_RFC3339 ''2021-02-30T00:00:00Z''"
  by code_simp

lemma store_groups_error: "snd (store_groups d pairs) \<noteq> Some ErrBadFormat"
  by (induction d pairs rule: store_groups.induct) (auto split: prod.splits option.splits)

lemma ErrBadFormat_iff:
  "snd (duration_ParseISO8601 s) = Some ErrBadFormat \<longleftrightarrow> \<not> pattern_MatchString s"
  by (auto simp: duration_ParseISO8601_def pattern_MatchString_def store_groups_error
      split: option.splits)

lemma bad_format_1h: "snd (duration_ParseISO8601 ''1h'') = Some ErrBadFormat"
  by code_simp

section \<open>The claims\<close>

subsection \<open>The identifier extractor\<close>




text \<open>
  C3. For every text that consists of the prefix \<^verbatim>\<open>https://youtu.be/\<close> followed by an
  identifier (letters, digits, \<^verbatim>\<open>-\<close> and \<^verbatim>\<open>_\<close>), \<^verbatim>\<open>getVideoID\<close> succeeds and returns the remainder
  of the text after that prefix, which is the identifier.
\<close>

theorem C3_short_link:
  assumes "list_all id_char ident"
  shows "strings_HasPrefix (youtu_be @ ident) youtu_be
     \<and> strings_TrimPrefix (youtu_be @ ident) youtu_be = ident
     \<and> getVideoID (youtu_be @ ident) = Inr (strings_TrimPrefix (youtu_be @ ident) youtu_be)"
proof -
  have p: "strings_HasPrefix (youtu_be @ ident) youtu_be"
    by (simp add: strings_HasPrefix_def)
  then have t: "strings_TrimPrefix (youtu_be @ ident) youtu_be = ident"
    by (simp add: strings_TrimPrefix_def)
  from short_link_identifier [OF assms] p t show ?thesis
    by simp
qed

theorem C3_short_link_witness:
  "list_all id_char ''dQw4w9WgXcQ''
   \<and> strings_HasPrefix ''https://youtu.be/dQw4w9WgXcQ'' ''https://youtu.be/''
   \<and> strings_TrimPrefix ''https://youtu.be/dQw4w9WgXcQ'' ''https://youtu.be/'' = ''dQw4w9WgXcQ''
   \<and> getVideoID ''https://youtu.be/dQw4w9WgXcQ'' = Inr ''dQw4w9WgXcQ''"
  using C3_short_link [OF id_chars_example] id_chars_example by (simp add: youtu_be_def)

text \<open>
  C4. A text that neither gives a non-empty \<^verbatim>\<open>v\<close> parameter nor begins with
  \<^verbatim>\<open>https://youtu.be/\<close> makes \<^verbatim>\<open>getVideoID\<close> fail with one of its two errors. For the message
  \<^verbatim>\<open>!rec not-a-url\<close> of an author that is no bot, the handler sends one error card, and its
  body is exactly \<^verbatim>\<open>URL Schema not valid\<close>.
\<close>

theorem C4_invalid_reference:
  "(\<not> yields_v s \<and> \<not> strings_HasPrefix s youtu_be
      \<longrightarrow> (\<exists>e. getVideoID s = Inl e \<and> InvalidReference e))
   \<and> (\<not> Bot (Author m) \<and> Content m = ''!rec not-a-url''
      \<longrightarrow> messageHandler w m = Inr [Send (ChannelID m) (error_embed w m URL_Schema_not_valid)]
          \<and> Embed_Description (error_embed w m URL_Schema_not_valid) = ''URL Schema not valid'')"
proof (intro conjI impI)
  assume "\<not> yields_v s \<and> \<not> strings_HasPrefix s youtu_be"
  then show "\<exists>e. getVideoID s = Inl e \<and> InvalidReference e"
    by (auto simp: getVideoID_def yields_v_def youtu_be_def InvalidReference_def split: sum.splits)
next
  have sp: "strings_Split ''!rec not-a-url'' '' '' = [''!rec'', ''not-a-url'']"
    by code_simp
  have g: "getVideoID ''not-a-url'' = Inl URL_Schema_not_valid"
    by code_simp
  assume "\<not> Bot (Author m) \<and> Content m = ''!rec not-a-url''"
  then show "messageHandler w m = Inr [Send (ChannelID m) (error_embed w m URL_Schema_not_valid)]"
    by (simp add: messageHandler_def sp g command_def fst_sendError)
next
  show "Embed_Description (error_embed w m URL_Schema_not_valid) = ''URL Schema not valid''"
    by (simp add: error_embed_def)
qed

theorem C4_invalid_reference_witness:
  "\<not> yields_v ''not-a-url'' \<and> \<not> strings_HasPrefix ''not-a-url'' youtu_be
   \<and> (\<exists>e. getVideoID ''not-a-url'' = Inl e \<and> InvalidReference e)
   \<and> \<not> Bot (Author (scenario_message False ''!rec not-a-url''))
   \<and> messageHandler (scenario_env []) (scenario_message False ''!rec not-a-url'')
       = Inr [Send ''c9'' (error_embed (scenario_env []) (scenario_message False ''!rec not-a-url'')
                             URL_Schema_not_valid)]"
  using C4_invalid_reference [of "''not-a-url''" "scenario_message False ''!rec not-a-url''" "scenario_env []"]
    not_yields_plain not_prefix_plain
  by (simp add: scenario_message_def)

text \<open>
  C10. For the text \<^verbatim>\<open>https://youtu.be/\<close>, the prefix alone, \<^verbatim>\<open>getVideoID\<close> succeeds and returns
  the empty string.
\<close>

theorem C10_empty_identifier: "getVideoID ''https://youtu.be/'' = Inr []"
  by code_simp

subsection \<open>The dispatcher\<close>

text \<open>
  C5, as stated, fails: the program splits the text at single spaces, not at whitespace. A
  message of two lines, \<^verbatim>\<open>!rec a\<close> and \<^verbatim>\<open>b\<close>, has three whitespace-delimited tokens; the
  program sees two parts, \<^verbatim>\<open>!rec\<close> and the rest with the line feed inside, and answers with
  an error card (the URL parser refuses the control character).
\<close>

theorem C5_counterexample:
  "\<not> Bot (Author (scenario_message False two_line_text))
   \<and> spec_whitespace_tokens (Content (scenario_message False two_line_text)) = [''!rec'', ''a'', ''b'']
   \<and> messageHandler (scenario_env []) (scenario_message False two_line_text)
       = Inr [Send ''c9'' (error_embed (scenario_env []) (scenario_message False two_line_text)
                (Failed_to_parse_URL \<lparr>Op = ''parse'', URL_text = [CHR ''a'', CHR 0x0A, CHR ''b''],
                                       Err = invalid_control_character\<rparr>))]
   \<and> messageHandler (scenario_env []) (scenario_message False two_line_text) \<noteq> Inr []"
  by code_simp

text \<open>
  C5, amended. For every message whose author is a bot account, or whose text does not
  split at its single space characters into exactly two parts, or whose first part is not
  \<^verbatim>\<open>!rec\<close>, the handler does nothing: it sends no card and logs nothing.
\<close>

theorem C5_ignored:
  assumes "Bot (Author m) \<or> length (strings_Split (Content m) '' '') \<noteq> 2
           \<or> strings_Split (Content m) '' '' ! 0 \<noteq> command"
  shows "messageHandler w m = Inr []"
  using assms by (auto simp: messageHandler_def Let_def)

theorem C5_ignored_witness:
  "Bot (Author (scenario_message True ''!rec https://youtu.be/abc123''))
   \<and> messageHandler (scenario_env [scenario_item]) (scenario_message True ''!rec https://youtu.be/abc123'') = Inr []
   \<and> length (strings_Split (Content (scenario_message False ''!rec a b'')) '' '') \<noteq> 2
   \<and> messageHandler (scenario_env [scenario_item]) (scenario_message False ''!rec a b'') = Inr []
   \<and> strings_Split (Content (scenario_message False ''!other a'')) '' '' ! 0 \<noteq> command
   \<and> messageHandler (scenario_env [scenario_item]) (scenario_message False ''!other a'') = Inr []"
  using C5_ignored [of "scenario_message True ''!rec https://youtu.be/abc123''" "scenario_env [scenario_item]"]
    C5_ignored [of "scenario_message False ''!rec a b''" "scenario_env [scenario_item]"]
    C5_ignored [of "scenario_message False ''!other a''" "scenario_env [scenario_item]"]
    three_parts other_command
  by (simp add: scenario_message_def command_def)

text \<open>
  C9. In every invocation of the command (the author is no bot, the text is \<^verbatim>\<open>!rec\<close>, a
  space and an argument from which \<^verbatim>\<open>getVideoID\<close> extracts an identifier) in which the API
  call returns no item, the handler sends exactly one card: the error card with body
  \<^verbatim>\<open>Item not found\<close>, title \<^verbatim>\<open>ERROR\<close>, the red colour and the single field that mentions the
  requester.
\<close>

theorem C9_item_not_found:
  assumes "\<not> Bot (Author m)" and "strings_Split (Content m) '' '' = [command, arg]"
    and "getVideoID arg = Inr videoID" and "Videos_List_Do w parts videoID 1 = Inr resp"
    and "Items resp = []"
  shows "messageHandler w m = Inr [Send (ChannelID m) (error_embed w m Item_not_found)]
     \<and> Embed_Description (error_embed w m Item_not_found) = ''Item not found''
     \<and> Embed_Title (error_embed w m Item_not_found) = ''ERROR''
     \<and> Embed_Color (error_embed w m Item_not_found) = 0xff0000
     \<and> Embed_Fields (error_embed w m Item_not_found)
         = [\<lparr>Name = sender_label, Value = ''<@'' @ ID (Author m) @ ''>'', Inline = False\<rparr>]"
  using assms
  by (simp add: messageHandler_def parts_def fst_sendError error_embed_def mention_def)

theorem C9_item_not_found_witness:
  "\<not> Bot (Author (scenario_message False ''!rec https://youtu.be/abc123''))
   \<and> strings_Split (Content (scenario_message False ''!rec https://youtu.be/abc123'')) '' ''
       = [command, ''https://youtu.be/abc123'']
   \<and> getVideoID ''https://youtu.be/abc123'' = Inr ''abc123''
   \<and> Videos_List_Do (scenario_env []) parts ''abc123'' 1 = Inr \<lparr>Items = []\<rparr>
   \<and> messageHandler (scenario_env []) (scenario_message False ''!rec https://youtu.be/abc123'')
       = Inr [Send ''c9'' (error_embed (scenario_env []) (scenario_message False ''!rec https://youtu.be/abc123'')
                             Item_not_found)]
   \<and> Embed_Description (error_embed (scenario_env []) (scenario_message False ''!rec https://youtu.be/abc123'')
                             Item_not_found) = ''Item not found''"
  using C9_item_not_found [of "scenario_message False ''!rec https://youtu.be/abc123''"
      "''https://youtu.be/abc123''" "''abc123''" "scenario_env []" "\<lparr>Items = []\<rparr>"]
    split_short getVideoID_short
  by (simp add: scenario_message_def scenario_env_def)

subsection \<open>The mapper\<close>

text \<open>
  C6, as stated, fails in both halves. The duration parser accepts \<^verbatim>\<open>P1DT\<close>, which is not a
  valid ISO-8601 duration, and returns one day without an error; for
  \<^verbatim>\<open>PT1H99999999999999999999M\<close> it fails, the minutes do not fit an \<^verbatim>\<open>int\<close>, but it returns the
  error together with the hour it has read already. \<^verbatim>\<open>time.Parse\<close> accepts
  \<^verbatim>\<open>2021-01-01T00:00:00+24:60\<close>, which is not valid RFC3339, and returns that clock reading at
  an offset of 25 hours. In all three cases the mapper returns a value whose field is not
  the zero value.
\<close>

theorem C6_counterexample:
  "\<not> spec_valid_ISO8601_duration ''P1DT''
   \<and> duration_ParseISO8601 ''P1DT''
       = (\<lparr>dur_Y = 0, dur_M = 0, dur_W = 0, dur_D = 1, TH = 0, TM = 0, TS = 0\<rparr>, None)
   \<and> mapMetadata (scenario_env []) trailing_T_item
       = Inr \<lparr>title = ''A video'', URL = ''https://www.youtube.com/watch?v=abc123'',
              imageURL = ''https://i.ytimg.com/vi/abc123/hq.jpg'', channelName = ''Some Channel'',
              channelThumbnailURL = [], channelURL = ''https://www.youtube.com/channel/UC42'',
              description = ''about'',
              duration = \<lparr>dur_Y = 0, dur_M = 0, dur_W = 0, dur_D = 1, TH = 0, TM = 0, TS = 0\<rparr>,
              publishedAt = scenario_time\<rparr>
   \<and> \<lparr>dur_Y = 0, dur_M = 0, dur_W = 0, dur_D = 1, TH = 0, TM = 0, TS = 0\<rparr> \<noteq> duration_zero
   \<and> duration_ParseISO8601 ''PT1H99999999999999999999M''
       = (\<lparr>dur_Y = 0, dur_M = 0, dur_W = 0, dur_D = 0, TH = 1, TM = 0, TS = 0\<rparr>,
          Some (AtoiError ErrRange))
   \<and> mapMetadata (scenario_env []) overflow_item
       = Inr \<lparr>title = ''A video'', URL = ''https://www.youtube.com/watch?v=abc123'',
              imageURL = ''https://i.ytimg.com/vi/abc123/hq.jpg'', channelName = ''Some Channel'',
              channelThumbnailURL = [], channelURL = ''https://www.youtube.com/channel/UC42'',
              description = ''about'',
              duration = \<lparr>dur_Y = 0, dur_M = 0, dur_W = 0, dur_D = 0, TH = 1, TM = 0, TS = 0\<rparr>,
              publishedAt = scenario_time\<rparr>
   \<and> \<lparr>dur_Y = 0, dur_M = 0, dur_W = 0, dur_D = 0, TH = 1, TM = 0, TS = 0\<rparr> \<noteq> duration_zero
   \<and> \<not> spec_valid_RFC3339 ''2021-01-01T00:00:00+24:60''
   \<and> time_Parse_RFC3339 (Local (scenario_env [])) ''2021-01-01T00:00:00+24:60''
       = (\<lparr>year = 2021, month = 1, day = 1, hour = 0, minute = 0, second = 0, nanosecond = 0,
           zone_name = [], zone_offset = 90000\<rparr>, None)
   \<and> mapMetadata (scenario_env []) offset_item
       = Inr \<lparr>title = ''A video'', URL = ''https://www.youtube.com/watch?v=abc123'',
              imageURL = ''https://i.ytimg.com/vi/abc123/hq.jpg'', channelName = ''Some Channel'',
              channelThumbnailURL = [], channelURL = ''https://www.youtube.com/channel/UC42'',
              description = ''about'',
              duration = \<lparr>dur_Y = 0, dur_M = 0, dur_W = 0, dur_D = 0, TH = 1, TM = 2, TS = 3\<rparr>,
              publishedAt = \<lparr>year = 2021, month = 1, day = 1, hour = 0, minute = 0, second = 0,
                nanosecond = 0, zone_name = [], zone_offset = 90000\<rparr>\<rparr>
   \<and> \<lparr>year = 2021, month = 1, day = 1, hour = 0, minute = 0, second = 0, nanosecond = 0,
       zone_name = [], zone_offset = 90000\<rparr> \<noteq> time_zero"
  by code_simp

text \<open>
  C6, amended. For every provider record that has all its parts (\<^verbatim>\<open>contentDetails\<close>, \<^verbatim>\<open>snippet\<close>,
  the thumbnails and the high thumbnail), \<^verbatim>\<open>mapMetadata\<close> returns a \<^verbatim>\<open>recommend\<close> value and
  does not fail; its duration and publish time are the values the two parsers return. If
  \<^verbatim>\<open>duration.ParseISO8601\<close> refuses the duration text with \<^verbatim>\<open>ErrBadFormat\<close> (the text does not
  match its pattern), the duration is the zero duration; if \<^verbatim>\<open>time.Parse\<close> with the RFC3339
  layout returns an error for the publish time, \<^verbatim>\<open>publishedAt\<close> is the zero \<^verbatim>\<open>Time\<close>. No error
  leaves the mapper: when such a record is the one item fetched for a command, the handler
  sends the success card built from that value, never an error card.
\<close>

theorem C6_mapMetadata_total:
  assumes "ContentDetails item = Some details" and "Snippet item = Some snippet"
    and "Thumbnails snippet = Some thumbnails" and "High thumbnails = Some high"
  shows "\<exists>r. mapMetadata w item = Inr r
     \<and> duration r = fst (duration_ParseISO8601 (Duration details))
     \<and> publishedAt r = fst (time_Parse_RFC3339 (Local w) (PublishedAt snippet))
     \<and> (snd (duration_ParseISO8601 (Duration details)) = Some ErrBadFormat
          \<longrightarrow> duration r = duration_zero)
     \<and> (snd (time_Parse_RFC3339 (Local w) (PublishedAt snippet)) \<noteq> None
          \<longrightarrow> publishedAt r = time_zero)
     \<and> (\<not> Bot (Author m) \<and> strings_Split (Content m) '' '' = [command, arg]
          \<and> getVideoID arg = Inr videoID \<and> Videos_List_Do w parts videoID 1 = Inr resp
          \<and> Items resp = [item]
          \<longrightarrow> messageHandler w m =
                Inr (Send (ChannelID m) (recommend_embed w m r)
                       # log_of (ChannelMessageSendEmbed w (ChannelID m) (recommend_embed w m r))))"
proof -
  from assms obtain r where r: "mapMetadata w item = Inr r"
    by (simp add: mapMetadata_def)
  from r assms have dv: "duration r = fst (duration_ParseISO8601 (Duration details))"
    by (auto simp: mapMetadata_def)
  from r assms have tv: "publishedAt r = fst (time_Parse_RFC3339 (Local w) (PublishedAt snippet))"
    by (auto simp: mapMetadata_def)
  have d: "snd (duration_ParseISO8601 (Duration details)) = Some ErrBadFormat
          \<longrightarrow> duration r = duration_zero"
    using dv by (simp add: ErrBadFormat_iff ParseISO8601_no_match)
  have t: "snd (time_Parse_RFC3339 (Local w) (PublishedAt snippet)) \<noteq> None
          \<longrightarrow> publishedAt r = time_zero"
    using tv time_Parse_error [of "Local w" "PublishedAt snippet"] by simp
  have h: "\<not> Bot (Author m) \<and> strings_Split (Content m) '' '' = [command, arg]
          \<and> getVideoID arg = Inr videoID \<and> Videos_List_Do w parts videoID 1 = Inr resp
          \<and> Items resp = [item]
          \<longrightarrow> messageHandler w m =
                Inr (Send (ChannelID m) (recommend_embed w m r)
                       # log_of (ChannelMessageSendEmbed w (ChannelID m) (recommend_embed w m r)))"
    using messageHandler_success [of m arg videoID w resp item r] r by blast
  from r dv tv d t h show ?thesis by blast
qed

theorem C6_mapMetadata_total_witness:
  "ContentDetails bare_item = Some \<lparr>Duration = ''1h''\<rparr>
   \<and> snd (duration_ParseISO8601 ''1h'') = Some ErrBadFormat
   \<and> snd (time_Parse_RFC3339 (Local (scenario_env [bare_item])) ''yesterday'') \<noteq> None
   \<and> Videos_List_Do (scenario_env [bare_item]) parts ''abc123'' 1 = Inr \<lparr>Items = [bare_item]\<rparr>
   \<and> (\<exists>r. mapMetadata (scenario_env [bare_item]) bare_item = Inr r
          \<and> duration r = duration_zero \<and> publishedAt r = time_zero
          \<and> messageHandler (scenario_env [bare_item]) (scenario_message False ''!rec https://youtu.be/abc123'')
              = Inr [Send ''c9'' (recommend_embed (scenario_env [bare_item])
                                   (scenario_message False ''!rec https://youtu.be/abc123'') r)])"
proof -
  let ?w = "scenario_env [bare_item]" and ?m = "scenario_message False ''!rec https://youtu.be/abc123''"
  let ?snippet = "\<lparr>ChannelId = ''UC42'', ChannelTitle = [], Description = [], PublishedAt = ''yesterday'',
        Thumbnails = Some \<lparr>High = Some \<lparr>Url = []\<rparr>\<rparr>, Title = []\<rparr>"
  have a: "ContentDetails bare_item = Some \<lparr>Duration = ''1h''\<rparr>" "Snippet bare_item = Some ?snippet"
    "Thumbnails ?snippet = Some \<lparr>High = Some \<lparr>Url = []\<rparr>\<rparr>"
    "High \<lparr>High = Some \<lparr>Url = []\<rparr>\<rparr> = Some \<lparr>Url = []\<rparr>"
    by (simp_all add: bare_item_def)
  have b: "\<not> Bot (Author ?m)" "strings_Split (Content ?m) '' '' = [command, ''https://youtu.be/abc123'']"
    "ChannelID ?m = ''c9''"
    by (simp_all add: scenario_message_def split_short)
  have c: "Videos_List_Do ?w parts ''abc123'' 1 = Inr \<lparr>Items = [bare_item]\<rparr>"
    "\<And>channel embed. ChannelMessageSendEmbed ?w channel embed = None"
    by (simp_all add: scenario_env_def)
  have d: "snd (duration_ParseISO8601 (Duration \<lparr>Duration = ''1h''\<rparr>)) = Some ErrBadFormat"
    "snd (time_Parse_RFC3339 (Local ?w) (PublishedAt ?snippet)) \<noteq> None"
    by (simp_all add: bad_format_1h time_error_yesterday)
  from C6_mapMetadata_total [OF a, of ?w ?m "''https://youtu.be/abc123''" "''abc123''"
      "\<lparr>Items = [bare_item]\<rparr>"] b(1,2) c(1) d getVideoID_short
  obtain r where "mapMetadata ?w bare_item = Inr r" "duration r = duration_zero"
    "publishedAt r = time_zero"
    "messageHandler ?w ?m = Inr [Send ''c9'' (recommend_embed ?w ?m r)]"
    by (auto simp: b(3) c(2) log_of_def)
  with a(1) c(1) bad_format_1h time_error_yesterday [of "Local ?w"] show ?thesis
    by auto
qed

text \<open>
  C7. In every \<^verbatim>\<open>recommend\<close> value the mapper builds, \<^verbatim>\<open>URL\<close> is
  \<^verbatim>\<open>https://www.youtube.com/watch?v=\<close> followed by the identifier of the provider record, and
  \<^verbatim>\<open>channelURL\<close> is \<^verbatim>\<open>https://www.youtube.com/channel/\<close> followed by the record's channel
  identifier, whatever the other fields hold.
\<close>

theorem C7_url_templates:
  assumes "mapMetadata w item = Inr r"
  shows "\<exists>snippet. Snippet item = Some snippet
     \<and> URL r = ''https://www.youtube.com/watch?v='' @ Video_Id item
     \<and> channelURL r = ''https://www.youtube.com/channel/'' @ ChannelId snippet"
  using assms by (auto simp: mapMetadata_def split: option.splits)

theorem C7_url_templates_witness:
  "mapMetadata (scenario_env []) bare_item =
     Inr \<lparr>title = [], URL = ''https://www.youtube.com/watch?v=abc123'', imageURL = [],
          channelName = [], channelThumbnailURL = [],
          channelURL = ''https://www.youtube.com/channel/UC42'', description = [],
          duration = duration_zero, publishedAt = time_zero\<rparr>
   \<and> (\<exists>snippet. Snippet bare_item = Some snippet
     \<and> URL \<lparr>title = [], URL = ''https://www.youtube.com/watch?v=abc123'', imageURL = [],
          channelName = [], channelThumbnailURL = [],
          channelURL = ''https://www.youtube.com/channel/UC42'', description = [],
          duration = duration_zero, publishedAt = time_zero\<rparr>
         = ''https://www.youtube.com/watch?v='' @ Video_Id bare_item
     \<and> channelURL \<lparr>title = [], URL = ''https://www.youtube.com/watch?v=abc123'', imageURL = [],
          channelName = [], channelThumbnailURL = [],
          channelURL = ''https://www.youtube.com/channel/UC42'', description = [],
          duration = duration_zero, publishedAt = time_zero\<rparr>
         = ''https://www.youtube.com/channel/'' @ ChannelId snippet)"
  using C7_url_templates [OF mapMetadata_bare [of "scenario_env []"]] mapMetadata_bare [of "scenario_env []"]
  by simp

subsection \<open>The renderer\<close>

text \<open>
  C8. The card \<^verbatim>\<open>sendRecommend\<close> sends for a \<^verbatim>\<open>recommend\<close> value carries its fields unchanged:
  the card's title is \<^verbatim>\<open>title\<close>, its link is \<^verbatim>\<open>URL\<close>, and the first two fields, as well as the
  author block, hold \<^verbatim>\<open>channelName\<close> and \<^verbatim>\<open>channelURL\<close>.
\<close>

theorem C8_card_carries_fields:
  "fst (sendRecommend w m r) = [Send (ChannelID m) (recommend_embed w m r)]
   \<and> Embed_Title (recommend_embed w m r) = title r
   \<and> Embed_URL (recommend_embed w m r) = URL r
   \<and> Value (Embed_Fields (recommend_embed w m r) ! 0) = channelName r
   \<and> Value (Embed_Fields (recommend_embed w m r) ! 1) = channelURL r
   \<and> Embed_Author (recommend_embed w m r)
       = Some \<lparr>Author_URL = channelURL r, Author_Name = channelName r,
                Author_IconURL = channelThumbnailURL r\<rparr>"
  by (simp add: fst_sendRecommend recommend_embed_def)

subsection \<open>The scenario of the specification\<close>

text \<open>
  C1, as stated, fails in three ways. With the full record of the scenario the card is
  sent, but its duration field does not read \<^verbatim>\<open>1h2m3s\<close>: the program writes the numbers
  with the Japanese words for hours, minutes and seconds, and no field of the card holds
  the text \<^verbatim>\<open>1h2m3s\<close>. A record with the duration and the publish time of the scenario but
  without thumbnails makes the handler dereference a \<^verbatim>\<open>nil\<close> pointer: no card is sent. And
  the link of the card is built from the identifier of the fetched record, not from the
  one in the message: when the one record returned is that of \<^verbatim>\<open>zzz999\<close>, the link ends in
  \<^verbatim>\<open>zzz999\<close>.
\<close>

theorem C1_counterexample:
  "messageHandler (scenario_env [scenario_item]) (scenario_message False scenario_text)
     = Inr [Send ''c9'' (recommend_embed (scenario_env [scenario_item]) (scenario_message False scenario_text)
              \<lparr>title = ''A video'', URL = ''https://www.youtube.com/watch?v=abc123'',
               imageURL = ''https://i.ytimg.com/vi/abc123/hq.jpg'', channelName = ''Some Channel'',
               channelThumbnailURL = [], channelURL = ''https://www.youtube.com/channel/UC42'',
               description = ''about'',
               duration = \<lparr>dur_Y = 0, dur_M = 0, dur_W = 0, dur_D = 0, TH = 1, TM = 2, TS = 3\<rparr>,
               publishedAt = scenario_time\<rparr>)]
   \<and> map Value (Embed_Fields (recommend_embed (scenario_env [scenario_item]) (scenario_message False scenario_text)
              \<lparr>title = ''A video'', URL = ''https://www.youtube.com/watch?v=abc123'',
               imageURL = ''https://i.ytimg.com/vi/abc123/hq.jpg'', channelName = ''Some Channel'',
               channelThumbnailURL = [], channelURL = ''https://www.youtube.com/channel/UC42'',
               description = ''about'',
               duration = \<lparr>dur_Y = 0, dur_M = 0, dur_W = 0, dur_D = 0, TH = 1, TM = 2, TS = 3\<rparr>,
               publishedAt = scenario_time\<rparr>))
     = [''Some Channel'', ''https://www.youtube.com/channel/UC42'', ''2021-01-01 00:00:00 +0000 UTC'',
        scenario_duration_text, ''<@u1>'']
   \<and> ''1h2m3s'' \<notin> set [''Some Channel'', ''https://www.youtube.com/channel/UC42'',
        ''2021-01-01 00:00:00 +0000 UTC'', scenario_duration_text, ''<@u1>'']
   \<and> Videos_List_Do (scenario_env [no_thumbnail_item]) parts ''abc123'' 1
       = Inr \<lparr>Items = [no_thumbnail_item]\<rparr>
   \<and> messageHandler (scenario_env [no_thumbnail_item]) (scenario_message False scenario_text)
       = Inl nil_pointer_dereference
   \<and> Videos_List_Do (scenario_env [other_id_item]) parts ''abc123'' 1
       = Inr \<lparr>Items = [other_id_item]\<rparr>
   \<and> messageHandler (scenario_env [other_id_item]) (scenario_message False scenario_text)
       = Inr [Send ''c9'' (recommend_embed (scenario_env [other_id_item]) (scenario_message False scenario_text)
              \<lparr>title = ''A video'', URL = ''https://www.youtube.com/watch?v=zzz999'',
               imageURL = ''https://i.ytimg.com/vi/abc123/hq.jpg'', channelName = ''Some Channel'',
               channelThumbnailURL = [], channelURL = ''https://www.youtube.com/channel/UC42'',
               description = ''about'',
               duration = \<lparr>dur_Y = 0, dur_M = 0, dur_W = 0, dur_D = 0, TH = 1, TM = 2, TS = 3\<rparr>,
               publishedAt = scenario_time\<rparr>)]
   \<and> Embed_URL (recommend_embed (scenario_env [other_id_item]) (scenario_message False scenario_text)
              \<lparr>title = ''A video'', URL = ''https://www.youtube.com/watch?v=zzz999'',
               imageURL = ''https://i.ytimg.com/vi/abc123/hq.jpg'', channelName = ''Some Channel'',
               channelThumbnailURL = [], channelURL = ''https://www.youtube.com/channel/UC42'',
               description = ''about'',
               duration = \<lparr>dur_Y = 0, dur_M = 0, dur_W = 0, dur_D = 0, TH = 1, TM = 2, TS = 3\<rparr>,
               publishedAt = scenario_time\<rparr>)
       = ''https://www.youtube.com/watch?v=zzz999''
   \<and> ''https://www.youtube.com/watch?v=zzz999'' \<noteq> ''https://www.youtube.com/watch?v=abc123''"
  by code_simp

text \<open>
  C1, amended. For the message \<^verbatim>\<open>!rec https://www.youtube.com/watch?v=abc123\<close> of a requester
  \<^verbatim>\<open>u1\<close> that is no bot, the extractor gives \<^verbatim>\<open>abc123\<close>. If the API call for \<^verbatim>\<open>abc123\<close> returns
  exactly one record, whose identifier is \<^verbatim>\<open>abc123\<close> and which has all its parts
  (\<^verbatim>\<open>contentDetails\<close>, \<^verbatim>\<open>snippet\<close>, the thumbnails and the high thumbnail), with duration
  \<^verbatim>\<open>PT1H2M3S\<close> and publish time \<^verbatim>\<open>2021-01-01T00:00:00Z\<close>, the mapper gives hours, minutes and
  seconds 1, 2 and 3 and that instant in UTC, and the handler sends the success card: its
  link is \<^verbatim>\<open>https://www.youtube.com/watch?v=abc123\<close>, its duration field reads 1, 2 and 3 each
  followed by the Japanese word for hours, minutes and seconds, and its last field
  mentions \<^verbatim>\<open>u1\<close> as \<^verbatim>\<open><@u1>\<close>.
\<close>

theorem C1_scenario:
  assumes "\<not> Bot (Author m)" and "ID (Author m) = ''u1''" and "Content m = scenario_text"
    and "Videos_List_Do w parts ''abc123'' 1 = Inr resp" and "Items resp = [item]"
    and "Video_Id item = ''abc123''"
    and "ContentDetails item = Some details" and "Duration details = ''PT1H2M3S''"
    and "Snippet item = Some snippet" and "PublishedAt snippet = ''2021-01-01T00:00:00Z''"
    and "Thumbnails snippet = Some thumbnails" and "High thumbnails = Some high"
  shows "getVideoID (strings_Split (Content m) '' '' ! 1) = Inr ''abc123''
     \<and> (\<exists>r. mapMetadata w item = Inr r
          \<and> (TH (duration r), TM (duration r), TS (duration r)) = (1, 2, 3)
          \<and> publishedAt r = scenario_time
          \<and> messageHandler w m =
               Inr (Send (ChannelID m) (recommend_embed w m r)
                      # log_of (ChannelMessageSendEmbed w (ChannelID m) (recommend_embed w m r)))
          \<and> Embed_URL (recommend_embed w m r) = ''https://www.youtube.com/watch?v=abc123''
          \<and> Value (Embed_Fields (recommend_embed w m r) ! 3) = scenario_duration_text
          \<and> Value (last (Embed_Fields (recommend_embed w m r))) = ''<@u1>'')"
proof -
  define r where "r = \<lparr>title = Title snippet, URL = ''https://www.youtube.com/watch?v=abc123'',
      imageURL = Url high, channelName = ChannelTitle snippet, channelThumbnailURL = [],
      channelURL = ''https://www.youtube.com/channel/'' @ ChannelId snippet,
      description = Description snippet,
      duration = \<lparr>dur_Y = 0, dur_M = 0, dur_W = 0, dur_D = 0, TH = 1, TM = 2, TS = 3\<rparr>,
      publishedAt = scenario_time\<rparr>"
  have sp: "strings_Split (Content m) '' '' = [command, ''https://www.youtube.com/watch?v=abc123'']"
    using assms(3) by (simp add: scenario_text_def split_scenario command_def)
  have mp: "mapMetadata w item = Inr r"
    using assms
    by (simp add: mapMetadata_def r_def parse_duration_scenario parse_time_scenario)
  have h: "messageHandler w m =
             Inr (Send (ChannelID m) (recommend_embed w m r)
                    # log_of (ChannelMessageSendEmbed w (ChannelID m) (recommend_embed w m r)))"
    by (rule messageHandler_success [OF assms(1) sp getVideoID_watch assms(4) assms(5) mp])
  have e: "Embed_URL (recommend_embed w m r) = ''https://www.youtube.com/watch?v=abc123''"
    by (simp add: recommend_embed_def r_def)
  have d: "Value (Embed_Fields (recommend_embed w m r) ! 3) = scenario_duration_text"
    by (simp add: recommend_embed_def r_def duration_text_scenario)
  have l: "Value (last (Embed_Fields (recommend_embed w m r))) = ''<@u1>''"
    using assms(2) by (simp add: recommend_embed_def mention_def)
  have c: "(TH (duration r), TM (duration r), TS (duration r)) = (1, 2, 3)"
    by (simp add: r_def)
  have p: "publishedAt r = scenario_time"
    by (simp add: r_def)
  from sp have g: "getVideoID (strings_Split (Content m) '' '' ! 1) = Inr ''abc123''"
    by (simp add: getVideoID_watch)
  from g mp c p h e d l show ?thesis by blast
qed

theorem C1_scenario_witness:
  "\<not> Bot (Author (scenario_message False scenario_text))
   \<and> Videos_List_Do (scenario_env [scenario_item]) parts ''abc123'' 1 = Inr \<lparr>Items = [scenario_item]\<rparr>
   \<and> getVideoID (strings_Split (Content (scenario_message False scenario_text)) '' '' ! 1) = Inr ''abc123''
   \<and> (\<exists>r. mapMetadata (scenario_env [scenario_item]) scenario_item = Inr r
          \<and> (TH (duration r), TM (duration r), TS (duration r)) = (1, 2, 3)
          \<and> publishedAt r = scenario_time
          \<and> messageHandler (scenario_env [scenario_item]) (scenario_message False scenario_text) =
               Inr [Send ''c9'' (recommend_embed (scenario_env [scenario_item])
                                   (scenario_message False scenario_text) r)]
          \<and> Embed_URL (recommend_embed (scenario_env [scenario_item])
                                   (scenario_message False scenario_text) r)
               = ''https://www.youtube.com/watch?v=abc123'')"
proof -
  let ?m = "scenario_message False scenario_text" and ?w = "scenario_env [scenario_item]"
  let ?snippet = "\<lparr>ChannelId = ''UC42'', ChannelTitle = ''Some Channel'', Description = ''about'',
        PublishedAt = ''2021-01-01T00:00:00Z'',
        Thumbnails = Some \<lparr>High = Some \<lparr>Url = ''https://i.ytimg.com/vi/abc123/hq.jpg''\<rparr>\<rparr>,
        Title = ''A video''\<rparr>"
  have a: "\<not> Bot (Author ?m)" "ID (Author ?m) = ''u1''" "Content ?m = scenario_text"
    "ChannelID ?m = ''c9''"
    by (simp_all add: scenario_message_def)
  have b: "Videos_List_Do ?w parts ''abc123'' 1 = Inr \<lparr>Items = [scenario_item]\<rparr>"
    "\<And>channel embed. ChannelMessageSendEmbed ?w channel embed = None"
    by (simp_all add: scenario_env_def)
  have c: "Items \<lparr>Items = [scenario_item]\<rparr> = [scenario_item]" "Video_Id scenario_item = ''abc123''"
    "ContentDetails scenario_item = Some \<lparr>Duration = ''PT1H2M3S''\<rparr>"
    "Duration \<lparr>Duration = ''PT1H2M3S''\<rparr> = ''PT1H2M3S''"
    "Snippet scenario_item = Some ?snippet"
    "PublishedAt ?snippet = ''2021-01-01T00:00:00Z''"
    "Thumbnails ?snippet = Some \<lparr>High = Some \<lparr>Url = ''https://i.ytimg.com/vi/abc123/hq.jpg''\<rparr>\<rparr>"
    "High \<lparr>High = Some \<lparr>Url = ''https://i.ytimg.com/vi/abc123/hq.jpg''\<rparr>\<rparr>
       = Some \<lparr>Url = ''https://i.ytimg.com/vi/abc123/hq.jpg''\<rparr>"
    by (simp_all add: scenario_item_def)
  from C1_scenario [OF a(1) a(2) a(3) b(1) c] a(1) b(1) show ?thesis
    by (auto simp: b(2) a(4) log_of_def)
qed

section \<open>Further properties\<close>

text \<open>
  A number too large for \<^verbatim>\<open>int\<close>, seen from the requester. The text
  \<^verbatim>\<open>PT1H99999999999999999999M\<close> matches the pattern of the duration parser, but \<^verbatim>\<open>strconv.Atoi\<close>
  fails on the minutes. The parser then returns the error together with the value built
  so far, which holds the hour already. The handler drops this error like any other: the
  card is a success card, and its duration field shows one hour.
\<close>

theorem overflow_keeps_fields:
  "pattern_MatchString ''PT1H99999999999999999999M''
   \<and> duration_ParseISO8601 ''PT1H99999999999999999999M''
       = (\<lparr>dur_Y = 0, dur_M = 0, dur_W = 0, dur_D = 0, TH = 1, TM = 0, TS = 0\<rparr>,
          Some (AtoiError ErrRange))
   \<and> \<lparr>dur_Y = 0, dur_M = 0, dur_W = 0, dur_D = 0, TH = 1, TM = 0, TS = 0\<rparr> \<noteq> duration_zero
   \<and> messageHandler (scenario_env [overflow_item]) (scenario_message False scenario_text)
       = Inr [Send ''c9'' (recommend_embed (scenario_env [overflow_item])
                (scenario_message False scenario_text)
                \<lparr>title = ''A video'', URL = ''https://www.youtube.com/watch?v=abc123'',
                 imageURL = ''https://i.ytimg.com/vi/abc123/hq.jpg'', channelName = ''Some Channel'',
                 channelThumbnailURL = [], channelURL = ''https://www.youtube.com/channel/UC42'',
                 description = ''about'',
                 duration = \<lparr>dur_Y = 0, dur_M = 0, dur_W = 0, dur_D = 0, TH = 1, TM = 0, TS = 0\<rparr>,
                 publishedAt = scenario_time\<rparr>)]
   \<and> duration_text \<lparr>dur_Y = 0, dur_M = 0, dur_W = 0, dur_D = 0, TH = 1, TM = 0, TS = 0\<rparr>
       = ''1'' @ hours_word @ ''0'' @ minutes_word @ ''0'' @ seconds_word"
  by code_simp

text \<open>
  The query is examined before the prefix. A text may begin with \<^verbatim>\<open>https://youtu.be/\<close> and
  carry a \<^verbatim>\<open>v\<close> parameter as well; then the parameter is the result, not the remainder of
  the text.
\<close>

theorem query_before_prefix:
  "strings_HasPrefix ''https://youtu.be/abc?v=xyz'' youtu_be
   \<and> strings_TrimPrefix ''https://youtu.be/abc?v=xyz'' youtu_be = ''abc?v=xyz''
   \<and> getVideoID ''https://youtu.be/abc?v=xyz'' = Inr ''xyz''"
  by code_simp

text \<open>
  A failed lookup. When the API call returns an error, the handler sends exactly one card,
  the error card whose body is the message of that error.
\<close>

theorem fetch_error_card:
  assumes "\<not> Bot (Author m)" and "strings_Split (Content m) '' '' = [command, arg]"
    and "getVideoID arg = Inr videoID" and "Videos_List_Do w parts videoID 1 = Inl err"
  shows "messageHandler w m = Inr [Send (ChannelID m) (error_embed w m err)]
     \<and> Embed_Description (error_embed w m err) = Error w err"
  using assms
  by (simp add: messageHandler_def parts_def sendError_def Let_def error_embed_def)

theorem fetch_error_card_witness:
  "\<not> Bot (Author (scenario_message False ''!rec https://youtu.be/abc123''))
   \<and> Videos_List_Do failing_env parts ''abc123'' 1 = Inl (external_error ''quota exceeded'')
   \<and> messageHandler failing_env (scenario_message False ''!rec https://youtu.be/abc123'')
       = Inr [Send ''c9'' (error_embed failing_env (scenario_message False ''!rec https://youtu.be/abc123'')
                             (external_error ''quota exceeded''))]
   \<and> Embed_Description (error_embed failing_env (scenario_message False ''!rec https://youtu.be/abc123'')
                             (external_error ''quota exceeded'')) = ''quota exceeded''"
proof -
  let ?m = "scenario_message False ''!rec https://youtu.be/abc123''"
  have a: "\<not> Bot (Author ?m)" "strings_Split (Content ?m) '' '' = [command, ''https://youtu.be/abc123'']"
    "ChannelID ?m = ''c9''"
    by (simp_all add: scenario_message_def split_short)
  have b: "Videos_List_Do failing_env parts ''abc123'' 1 = Inl (external_error ''quota exceeded'')"
    by (simp add: failing_env_def)
  from fetch_error_card [OF a(1) a(2) getVideoID_short b] a(1) b show ?thesis
    by (simp add: a(3))
qed

text \<open>
  A record with a missing part. When the one item of the response lacks \<^verbatim>\<open>contentDetails\<close>,
  \<^verbatim>\<open>snippet\<close>, the thumbnails or the high-resolution thumbnail, the handler dereferences a
  \<^verbatim>\<open>nil\<close> pointer: it panics before anything is sent.
\<close>

theorem missing_part_panics:
  assumes "\<not> Bot (Author m)" and "strings_Split (Content m) '' '' = [command, arg]"
    and "getVideoID arg = Inr videoID" and "Videos_List_Do w parts videoID 1 = Inr resp"
    and "Items resp = [item]"
    and "ContentDetails item = None \<or> Snippet item = None
         \<or> (\<exists>snippet. Snippet item = Some snippet
               \<and> (Thumbnails snippet = None
                    \<or> (\<exists>thumbnails. Thumbnails snippet = Some thumbnails \<and> High thumbnails = None)))"
  shows "messageHandler w m = Inl nil_pointer_dereference"
proof -
  from assms(6) have "mapMetadata w item = Inl nil_pointer_dereference"
    by (auto simp: mapMetadata_def split: option.splits)
  with assms(1-5) show ?thesis
    by (simp add: messageHandler_def parts_def)
qed

theorem missing_part_panics_witness:
  "\<not> Bot (Author (scenario_message False ''!rec https://youtu.be/abc123''))
   \<and> Videos_List_Do (scenario_env [partial_item]) parts ''abc123'' 1 = Inr \<lparr>Items = [partial_item]\<rparr>
   \<and> ContentDetails partial_item = None
   \<and> messageHandler (scenario_env [partial_item]) (scenario_message False ''!rec https://youtu.be/abc123'')
       = Inl nil_pointer_dereference"
proof -
  let ?m = "scenario_message False ''!rec https://youtu.be/abc123''"
  have a: "\<not> Bot (Author ?m)" "strings_Split (Content ?m) '' '' = [command, ''https://youtu.be/abc123'']"
    by (simp_all add: scenario_message_def split_short)
  have b: "Videos_List_Do (scenario_env [partial_item]) parts ''abc123'' 1 = Inr \<lparr>Items = [partial_item]\<rparr>"
    by (simp add: scenario_env_def)
  have c: "Items \<lparr>Items = [partial_item]\<rparr> = [partial_item]"
    by simp
  have d: "ContentDetails partial_item = None"
    by (simp add: partial_item_def)
  from missing_part_panics [OF a(1) a(2) getVideoID_short b c] a(1) b d show ?thesis
    by simp
qed

text \<open>
  A command is always answered. When the author is no bot and the text is \<^verbatim>\<open>!rec\<close>, one space
  and one more part, the handler either hands a card to the session (the success card or
  an error card) or panics on a missing part of the record; it never stays silent.
\<close>

theorem command_is_answered:
  assumes "\<not> Bot (Author m)" and "strings_Split (Content m) '' '' = [command, arg]"
  shows "messageHandler w m = Inl nil_pointer_dereference
     \<or> (\<exists>embed log. messageHandler w m = Inr (Send (ChannelID m) embed # log))"
proof (cases "getVideoID arg")
  case (Inl err)
  with assms show ?thesis
    by (simp add: messageHandler_def fst_sendError)
next
  case (Inr videoID)
  show ?thesis
  proof (cases "Videos_List_Do w parts videoID 1")
    case (Inl err)
    with assms Inr show ?thesis
      by (simp add: messageHandler_def parts_def fst_sendError)
  next
    case fetched: (Inr resp)
    show ?thesis
    proof (cases "length (Items resp) = 1")
      case False
      with assms Inr fetched show ?thesis
        by (simp add: messageHandler_def parts_def fst_sendError)
    next
      case True
      then obtain item where item: "Items resp = [item]"
        by (cases "Items resp") auto
      show ?thesis
      proof (cases "mapMetadata w item")
        case (Inl p)
        with assms Inr fetched item show ?thesis
          by (cases p) (simp add: messageHandler_def parts_def)
      next
        case built: (Inr r)
        from messageHandler_success [OF assms Inr fetched item built] show ?thesis
          by blast
      qed
    qed
  qed
qed

end
